theory Spec2Isabelle
  imports Complex_Main "HOL-Library.AList" "HOL-Library.Sublist"
begin

section \<open>LearnHub backend: values, documents and identifiers\<close>

text \<open>
  The service (\<^verbatim>\<open>src/main.py\<close>, \<^verbatim>\<open>src/schemas.py\<close>) moves Python dictionaries between
  HTTP bodies and a document store. A dictionary is modelled as an association list in
  insertion order, read with \<open>map_of\<close> and written with \<open>AList.update\<close> (an existing key
  keeps its place, a new key goes to the end, as in Python) and \<open>AList.delete\<close>.

  Numbers are exact rationals: the code only stores numeric literals and compares them with
  the bounds \<open>0\<close>, \<open>2\<close> and \<open>5\<close>; it does no arithmetic on them. An integer is a number
  without fractional part.

  An \<open>ObjectId\<close> is kept in its printed form, 24 lower-case hexadecimal characters.
\<close>

datatype ObjectId = ObjectId string

datatype pyval =
    PNone
  | PBool bool
  | PNum rat
  | PStr string
  | PList "pyval list"
  | PDict "(string \<times> pyval) list"
  | PObjectId ObjectId

type_synonym doc = "(string \<times> pyval) list"

text \<open>\<^verbatim>\<open>str(oid)\<close>.\<close>

fun str_ObjectId :: "ObjectId \<Rightarrow> string" where
  "str_ObjectId (ObjectId h) = h"

subsection \<open>\<^verbatim>\<open>serialize_doc\<close> (main.py, lines 29-37)\<close>

text \<open>
  \<^verbatim>\<open>
  def serialize_doc(doc):
      if not doc:
          return doc
      d = dict(doc)
      _id = d.get("_id")
      if isinstance(_id, ObjectId):
          d["id"] = str(_id)
          del d["_id"]
      return d
  \<close>
\<close>

definition serialize_doc :: "doc \<Rightarrow> doc" where
  "serialize_doc doc =
     (if doc = [] then doc
      else (case map_of doc ''_id'' of
              Some (PObjectId oid) \<Rightarrow>
                AList.delete ''_id'' (AList.update ''id'' (PStr (str_ObjectId oid)) doc)
            | _ \<Rightarrow> doc))"

section \<open>Strings and identifiers\<close>

text \<open>
  \<^verbatim>\<open>str.lower()\<close> on the ASCII letters; every other character is left as it is.
  \<^verbatim>\<open>a in b\<close> on two strings is \<open>sublist a b\<close>: \<open>a\<close> occurs in \<open>b\<close> as a contiguous block.
\<close>

definition lower_char :: "char \<Rightarrow> char" where
  "lower_char c =
     (case map_of (zip ''ABCDEFGHIJKLMNOPQRSTUVWXYZ'' ''abcdefghijklmnopqrstuvwxyz'') c of
        Some l \<Rightarrow> l
      | None \<Rightarrow> c)"

definition lower :: "string \<Rightarrow> string" where
  "lower s = map lower_char s"

definition is_hex_char :: "char \<Rightarrow> bool" where
  "is_hex_char c = (c \<in> set ''0123456789abcdefABCDEF'')"

datatype exn =
    HTTPException nat string
  | RequestValidationError "string list"
  | StoreError
  | InvalidId
  | TypeError
  | AttributeError

text \<open>
  The status line a raised exception turns into: an \<open>HTTPException\<close> carries its own code,
  a request that fails validation is answered with 422, anything else with 500.
\<close>

fun status_code :: "exn \<Rightarrow> nat" where
  "status_code (HTTPException c d) = c"
| "status_code (RequestValidationError fs) = 422"
| "status_code e = 500"

text \<open>
  Modelled from the spec: the \<open>bson\<close> constructor \<^verbatim>\<open>ObjectId(x)\<close> is library code outside
  the repository. Following section 3 (``the identifier is 24 hexadecimal characters''), a
  string is accepted exactly when it consists of 24 hexadecimal digits; the identifier
  prints in lower case. Any other string raises \<open>InvalidId\<close>, a value that is neither a
  string nor an identifier raises \<open>TypeError\<close>.
\<close>

definition ObjectId_of_str :: "string \<Rightarrow> ObjectId option" where
  "ObjectId_of_str s =
     (if length s = 24 \<and> list_all is_hex_char s then Some (ObjectId (lower s)) else None)"

fun ObjectId_new :: "pyval \<Rightarrow> exn + ObjectId" where
  "ObjectId_new (PStr s) = (case ObjectId_of_str s of None \<Rightarrow> Inl InvalidId | Some oid \<Rightarrow> Inr oid)"
| "ObjectId_new (PObjectId oid) = Inr oid"
| "ObjectId_new v = Inl TypeError"

text \<open>Python's truth value of an object (\<^verbatim>\<open>if x\<close>, \<^verbatim>\<open>x or y\<close>, \<^verbatim>\<open>not x\<close>).\<close>

fun truthy :: "pyval \<Rightarrow> bool" where
  "truthy PNone = False"
| "truthy (PBool b) = b"
| "truthy (PNum r) = (r \<noteq> 0)"
| "truthy (PStr s) = (s \<noteq> [])"
| "truthy (PList xs) = (xs \<noteq> [])"
| "truthy (PDict kvs) = (kvs \<noteq> [])"
| "truthy (PObjectId oid) = True"

text \<open>
  An optional query parameter under \<^verbatim>\<open>if course:\<close>: the test holds when the parameter is
  given and not empty, and \<open>given\<close> returns its value then.
\<close>

fun given :: "string option \<Rightarrow> string option" where
  "given None = None"
| "given (Some s) = (if s = [] then None else Some s)"

section \<open>The document store\<close>

text \<open>
  Modelled from the spec: the module \<^verbatim>\<open>database.py\<close> (\<open>db\<close>, \<open>create_document\<close>,
  \<open>get_documents\<close>) and the store driver behind it are not among the sources. Section 4.1
  of the specification describes them: named collections of documents; \<open>insert\<close> persists a
  document and returns the store-generated 24-hex identifier; \<open>list\<close> returns all documents
  whose fields equal the corresponding filter values (an empty filter matches all);
  lookup by identifier returns the document or nothing; \<open>count\<close>; connection failures
  surface as a generic store error.

  The store keeps each collection as the list of its documents in insertion order, each
  document with its identifier under \<open>_id\<close>. Identifiers are drawn from a counter and
  printed as 24 hexadecimal digits. \<open>reachable\<close> says whether the server answers; when it
  does not, every operation raises \<open>StoreError\<close> and changes nothing.
\<close>

record database =
  collections :: "string \<Rightarrow> doc list"
  next_oid :: nat
  reachable :: bool

definition hex_digit :: "nat \<Rightarrow> char" where
  "hex_digit n = ''0123456789abcdef'' ! (n mod 16)"

fun hex_of :: "nat \<Rightarrow> nat \<Rightarrow> string" where
  "hex_of 0 n = []"
| "hex_of (Suc k) n = hex_of k (n div 16) @ [hex_digit n]"

definition fresh_ObjectId :: "nat \<Rightarrow> ObjectId" where
  "fresh_ObjectId n = ObjectId (hex_of 24 n)"

text \<open>Documents as stored, with consecutive identifiers from \<open>n\<close> on.\<close>

fun with_ids :: "nat \<Rightarrow> doc list \<Rightarrow> doc list" where
  "with_ids n [] = []"
| "with_ids n (d # ds) = ((''_id'', PObjectId (fresh_ObjectId n)) # d) # with_ids (Suc n) ds"

definition matches :: "doc \<Rightarrow> doc \<Rightarrow> bool" where
  "matches flt d = list_all (\<lambda>(k, v). map_of d k = Some v) flt"

definition count_documents :: "database \<Rightarrow> string \<Rightarrow> exn + nat" where
  "count_documents s c =
     (if reachable s then Inr (length (filter (matches []) (collections s c))) else Inl StoreError)"

definition insert_one :: "database \<Rightarrow> string \<Rightarrow> doc \<Rightarrow> (exn + ObjectId) \<times> database" where
  "insert_one s c d =
     (if reachable s
      then (let oid = fresh_ObjectId (next_oid s) in
            (Inr oid,
             s\<lparr>collections := (collections s)(c := collections s c @ [(''_id'', PObjectId oid) # d]),
               next_oid := Suc (next_oid s)\<rparr>))
      else (Inl StoreError, s))"

definition find :: "database \<Rightarrow> string \<Rightarrow> doc \<Rightarrow> exn + doc list" where
  "find s c flt = (if reachable s then Inr (filter (matches flt) (collections s c)) else Inl StoreError)"

definition find_one :: "database \<Rightarrow> string \<Rightarrow> doc \<Rightarrow> exn + doc option" where
  "find_one s c flt =
     (if reachable s then Inr (List.find (matches flt) (collections s c)) else Inl StoreError)"

text \<open>
  Modelled from the spec: \<open>create_document\<close> and \<open>get_documents\<close> of \<^verbatim>\<open>database.py\<close>, which
  is not among the sources (section 4.1: \<open>insert\<close> and \<open>list\<close>). They work on the global
  handle \<open>db\<close>, which is \<open>None\<close> when no store is configured; they raise then (section 7:
  an unavailable store surfaces as a 5xx on the resource endpoints).
\<close>

definition create_document :: "string \<Rightarrow> doc \<Rightarrow> database option \<Rightarrow> (exn + string) \<times> database option" where
  "create_document c data db =
     (case db of
        None \<Rightarrow> (Inl StoreError, db)
      | Some s \<Rightarrow>
          (case insert_one s c data of
             (Inl e, s') \<Rightarrow> (Inl e, Some s')
           | (Inr oid, s') \<Rightarrow> (Inr (str_ObjectId oid), Some s')))"

definition get_documents :: "string \<Rightarrow> doc \<Rightarrow> database option \<Rightarrow> exn + doc list" where
  "get_documents c flt db = (case db of None \<Rightarrow> Inl StoreError | Some s \<Rightarrow> find s c flt)"


section \<open>Schemas (schemas.py)\<close>

text \<open>
  Each model of \<^verbatim>\<open>schemas.py\<close> is the list of its field declarations, in the order of the
  file: name, annotation, default (\<open>Required\<close> for \<^verbatim>\<open>Field(...)\<close> and for a bare
  annotation) and the numeric bounds \<^verbatim>\<open>ge\<close>, \<^verbatim>\<open>gt\<close>, \<^verbatim>\<open>le\<close>.
\<close>

datatype annotation =
    T_str
  | T_float
  | T_int
  | T_Literal "string list"
  | T_List annotation
  | T_Optional annotation

datatype bound = Ge rat | Gt rat | Le rat

datatype default = Required | Default pyval

datatype FieldInfo = Field string annotation default "bound list"

fun field_name :: "FieldInfo \<Rightarrow> string" where
  "field_name (Field n t d bs) = n"

definition courses :: "string list" where
  "courses = [''Information Technology'', ''Electrical Engineering'', ''Civil Engineering'',
              ''Business Administration'', ''Education'', ''Nursing'', ''Accountancy'',
              ''Hospitality Management'']"

definition material_types :: "string list" where
  "material_types = [''Reviewer'', ''Class Notes'', ''Handout'', ''Problem Set'', ''Cheat Sheet'']"

definition session_modes :: "string list" where
  "session_modes = [''One-on-One'', ''Group'']"

definition booking_statuses :: "string list" where
  "booking_statuses = [''pending'', ''confirmed'', ''cancelled'']"

definition Material :: "FieldInfo list" where
  "Material =
     [Field ''title'' T_str Required [],
      Field ''description'' (T_Optional T_str) (Default PNone) [],
      Field ''course'' (T_Literal courses) Required [],
      Field ''subject'' T_str Required [],
      Field ''type'' (T_Literal material_types) Required [],
      Field ''price'' T_float (Default (PNum 0)) [Ge 0],
      Field ''author_name'' T_str Required [],
      Field ''university'' T_str (Default (PStr ''Pamantasan ng Lungsod ng Valenzuela'')) [],
      Field ''file_url'' (T_Optional T_str) (Default PNone) [],
      Field ''rating'' (T_Optional T_float) (Default (PNum 4.8)) [Ge 0, Le 5],
      Field ''downloads'' (T_Optional T_int) (Default (PNum 0)) [Ge 0]]"

definition Tutor :: "FieldInfo list" where
  "Tutor =
     [Field ''name'' T_str Required [],
      Field ''course'' (T_Literal courses) Required [],
      Field ''subjects'' (T_List T_str) (Default (PList [])) [],
      Field ''rate_per_hour'' T_float Required [Ge 0],
      Field ''modes'' (T_List (T_Literal session_modes)) (Default (PList [PStr ''One-on-One''])) [],
      Field ''bio'' (T_Optional T_str) (Default PNone) [],
      Field ''availability'' (T_Optional (T_List T_str)) (Default (PList [])) [],
      Field ''rating'' (T_Optional T_float) (Default (PNum 4.9)) [Ge 0, Le 5]]"

definition Booking :: "FieldInfo list" where
  "Booking =
     [Field ''tutor_id'' T_str Required [],
      Field ''student_name'' T_str Required [],
      Field ''student_email'' T_str Required [],
      Field ''mode'' (T_Literal session_modes) Required [],
      Field ''session_datetime'' T_str Required [],
      Field ''duration_hours'' T_float (Default (PNum 1)) [Gt 0],
      Field ''group_size'' (T_Optional T_int) (Default PNone) [Ge 2],
      Field ''notes'' (T_Optional T_str) (Default PNone) [],
      Field ''status'' (T_Literal booking_statuses) (Default (PStr ''pending'')) []]"

subsection \<open>Validation\<close>

text \<open>
  Modelled from the spec: the engine that checks a body against these declarations
  (\<open>pydantic\<close>, called by the web framework before the handler runs) is library code
  outside the repository. Section 4.2 of the specification describes it: required fields
  present, types correct, enumerations respected, numeric bounds honoured; a missing optional
  field takes its default, unchecked; unknown fields are ignored; a failure is a 422-class
  error. A value is accepted as it is, without conversion. The error names the fields that
  failed, in declaration order.
\<close>

fun conforms :: "annotation \<Rightarrow> pyval \<Rightarrow> bool" where
  "conforms T_str v = (case v of PStr s \<Rightarrow> True | _ \<Rightarrow> False)"
| "conforms T_float v = (case v of PNum r \<Rightarrow> True | _ \<Rightarrow> False)"
| "conforms T_int v = (case v of PNum r \<Rightarrow> frac r = 0 | _ \<Rightarrow> False)"
| "conforms (T_Literal ls) v = (case v of PStr s \<Rightarrow> s \<in> set ls | _ \<Rightarrow> False)"
| "conforms (T_List t) v = (case v of PList xs \<Rightarrow> list_all (conforms t) xs | _ \<Rightarrow> False)"
| "conforms (T_Optional t) v = (v = PNone \<or> conforms t v)"

fun obeys :: "bound \<Rightarrow> pyval \<Rightarrow> bool" where
  "obeys (Ge b) (PNum r) = (b \<le> r)"
| "obeys (Gt b) (PNum r) = (b < r)"
| "obeys (Le b) (PNum r) = (r \<le> b)"
| "obeys b v = True"

fun accepts :: "FieldInfo \<Rightarrow> pyval \<Rightarrow> bool" where
  "accepts (Field n t d bs) v = (conforms t v \<and> list_all (\<lambda>b. obeys b v) bs)"

text \<open>
  A field is offending when the body gives it a value that is not accepted, or gives it
  no value although it is required.
\<close>

fun offending :: "doc \<Rightarrow> FieldInfo \<Rightarrow> bool" where
  "offending input (Field n t d bs) =
     (case map_of input n of
        Some v \<Rightarrow> \<not> accepts (Field n t d bs) v
      | None \<Rightarrow> d = Required)"

text \<open>The value a field that is not offending takes: the one given, else the default.\<close>

fun field_value :: "doc \<Rightarrow> FieldInfo \<Rightarrow> string \<times> pyval" where
  "field_value input (Field n t d bs) =
     (n, case map_of input n of
           Some v \<Rightarrow> v
         | None \<Rightarrow> (case d of Default dv \<Rightarrow> dv | Required \<Rightarrow> PNone))"

fun validate_fields :: "FieldInfo list \<Rightarrow> doc \<Rightarrow> string list \<times> doc" where
  "validate_fields [] input = ([], [])"
| "validate_fields (Field n t d bs # fs) input =
     (case validate_fields fs input of
        (errs, vals) \<Rightarrow>
          (case map_of input n of
             Some v \<Rightarrow>
               if accepts (Field n t d bs) v then (errs, (n, v) # vals) else (n # errs, vals)
           | None \<Rightarrow>
               (case d of
                  Required \<Rightarrow> (n # errs, vals)
                | Default dv \<Rightarrow> (errs, (n, dv) # vals))))"

definition model_validate :: "FieldInfo list \<Rightarrow> doc \<Rightarrow> string list + doc" where
  "model_validate model input =
     (case validate_fields model input of
        (errs, vals) \<Rightarrow> if errs = [] then Inr vals else Inl errs)"

text \<open>
  The request models \<^verbatim>\<open>CreateMaterial\<close>, \<^verbatim>\<open>CreateTutor\<close>, \<^verbatim>\<open>CreateBooking\<close> (main.py,
  lines 123, 147, 158) have the single field \<^verbatim>\<open>data\<close>.
\<close>

definition validate_payload :: "FieldInfo list \<Rightarrow> pyval \<Rightarrow> exn + doc" where
  "validate_payload model body =
     (case body of
        PDict kvs \<Rightarrow>
          (case map_of kvs ''data'' of
             Some (PDict input) \<Rightarrow>
               (case model_validate model input of
                  Inl errs \<Rightarrow> Inl (RequestValidationError errs)
                | Inr data \<Rightarrow> Inr data)
           | _ \<Rightarrow> Inl (RequestValidationError [''data'']))
      | _ \<Rightarrow> Inl (RequestValidationError [''body'']))"

section \<open>Request handlers (main.py)\<close>

subsection \<open>Listing materials (lines 108-120)\<close>

text \<open>
  \<^verbatim>\<open>
  def list_materials(course=None, subject=None, q=None):
      flt = {}
      if course:
          flt["course"] = course
      if subject:
          flt["subject"] = subject
      docs = get_documents("material", flt)
      items = [serialize_doc(d) for d in docs]
      if q:
          ql = q.lower()
          items = [i for i in items if ql in i.get("title", "").lower()
                                    or ql in (i.get("description") or "").lower()]
      return {"items": items}
  \<close>
  \<^verbatim>\<open>x.lower()\<close> exists on strings only; on any other value it raises \<open>AttributeError\<close>,
  and the comprehension, hence the request, ends there.
\<close>

fun str_lower :: "pyval \<Rightarrow> exn + string" where
  "str_lower (PStr s) = Inr (lower s)"
| "str_lower v = Inl AttributeError"

definition material_hit :: "string \<Rightarrow> doc \<Rightarrow> exn + bool" where
  "material_hit ql i =
     (case str_lower (case map_of i ''title'' of None \<Rightarrow> PStr [] | Some v \<Rightarrow> v) of
        Inl e \<Rightarrow> Inl e
      | Inr t \<Rightarrow>
          if sublist ql t then Inr True
          else (case str_lower (case map_of i ''description'' of
                                  None \<Rightarrow> PStr []
                                | Some v \<Rightarrow> if truthy v then v else PStr []) of
                  Inl e \<Rightarrow> Inl e
                | Inr d \<Rightarrow> Inr (sublist ql d)))"

text \<open>A list comprehension with a condition that may raise.\<close>

fun filter_exn :: "('a \<Rightarrow> exn + bool) \<Rightarrow> 'a list \<Rightarrow> exn + 'a list" where
  "filter_exn p [] = Inr []"
| "filter_exn p (x # xs) =
     (case p x of
        Inl e \<Rightarrow> Inl e
      | Inr b \<Rightarrow>
          (case filter_exn p xs of
             Inl e \<Rightarrow> Inl e
           | Inr ys \<Rightarrow> Inr (if b then x # ys else ys)))"

definition items_response :: "doc list \<Rightarrow> doc" where
  "items_response items = [(''items'', PList (map PDict items))]"

definition list_materials ::
  "string option \<Rightarrow> string option \<Rightarrow> string option \<Rightarrow> database option \<Rightarrow> exn + doc" where
  "list_materials course subject q db =
     (let flt = (case given course of None \<Rightarrow> [] | Some c \<Rightarrow> [(''course'', PStr c)])
              @ (case given subject of None \<Rightarrow> [] | Some s \<Rightarrow> [(''subject'', PStr s)])
      in case get_documents ''material'' flt db of
           Inl e \<Rightarrow> Inl e
         | Inr docs \<Rightarrow>
             (let items = map serialize_doc docs
              in case given q of
                   None \<Rightarrow> Inr (items_response items)
                 | Some qs \<Rightarrow>
                     (case filter_exn (material_hit (lower qs)) items of
                        Inl e \<Rightarrow> Inl e
                      | Inr items' \<Rightarrow> Inr (items_response items'))))"

subsection \<open>Listing tutors (lines 134-144)\<close>

text \<open>
  \<^verbatim>\<open>
  def list_tutors(course=None, subject=None):
      flt = {}
      if course:
          flt["course"] = course
      docs = get_documents("tutor", flt)
      items = [serialize_doc(d) for d in docs]
      if subject:
          sl = subject.lower()
          items = [i for i in items if any(sl in s.lower() for s in i.get("subjects", []))]
      return {"items": items}
  \<close>
  \<^verbatim>\<open>any\<close> stops at the first hit. Iterating a list gives its elements, a string its
  characters, a dictionary its keys; any other value raises \<open>TypeError\<close>.
\<close>

fun py_iter :: "pyval \<Rightarrow> exn + pyval list" where
  "py_iter (PList xs) = Inr xs"
| "py_iter (PStr s) = Inr (map (\<lambda>c. PStr [c]) s)"
| "py_iter (PDict kvs) = Inr (map (\<lambda>kv. PStr (fst kv)) kvs)"
| "py_iter v = Inl TypeError"

fun any_exn :: "('a \<Rightarrow> exn + bool) \<Rightarrow> 'a list \<Rightarrow> exn + bool" where
  "any_exn p [] = Inr False"
| "any_exn p (x # xs) =
     (case p x of
        Inl e \<Rightarrow> Inl e
      | Inr b \<Rightarrow> if b then Inr True else any_exn p xs)"

definition subject_hit :: "string \<Rightarrow> pyval \<Rightarrow> exn + bool" where
  "subject_hit sl s = (case str_lower s of Inl e \<Rightarrow> Inl e | Inr l \<Rightarrow> Inr (sublist sl l))"

definition tutor_hit :: "string \<Rightarrow> doc \<Rightarrow> exn + bool" where
  "tutor_hit sl i =
     (case py_iter (case map_of i ''subjects'' of None \<Rightarrow> PList [] | Some v \<Rightarrow> v) of
        Inl e \<Rightarrow> Inl e
      | Inr ss \<Rightarrow> any_exn (subject_hit sl) ss)"

definition list_tutors :: "string option \<Rightarrow> string option \<Rightarrow> database option \<Rightarrow> exn + doc" where
  "list_tutors course subject db =
     (let flt = (case given course of None \<Rightarrow> [] | Some c \<Rightarrow> [(''course'', PStr c)])
      in case get_documents ''tutor'' flt db of
           Inl e \<Rightarrow> Inl e
         | Inr docs \<Rightarrow>
             (let items = map serialize_doc docs
              in case given subject of
                   None \<Rightarrow> Inr (items_response items)
                 | Some sj \<Rightarrow>
                     (case filter_exn (tutor_hit (lower sj)) items of
                        Inl e \<Rightarrow> Inl e
                      | Inr items' \<Rightarrow> Inr (items_response items'))))"

subsection \<open>Creating materials, tutors and bookings (lines 127-173)\<close>

text \<open>
  The handlers receive \<^verbatim>\<open>payload.data\<close>, a validated model; it is held as the dictionary of
  its fields in declaration order, which is also what is persisted.
  \<^verbatim>\<open>
  def create_material(payload):
      inserted_id = create_document("material", payload.data)
      return {"id": inserted_id}
  \<close>
\<close>

definition create_material :: "doc \<Rightarrow> database option \<Rightarrow> (exn + doc) \<times> database option" where
  "create_material data db =
     (case create_document ''material'' data db of
        (Inl e, db') \<Rightarrow> (Inl e, db')
      | (Inr inserted_id, db') \<Rightarrow> (Inr [(''id'', PStr inserted_id)], db'))"

definition create_tutor :: "doc \<Rightarrow> database option \<Rightarrow> (exn + doc) \<times> database option" where
  "create_tutor data db =
     (case create_document ''tutor'' data db of
        (Inl e, db') \<Rightarrow> (Inl e, db')
      | (Inr inserted_id, db') \<Rightarrow> (Inr [(''id'', PStr inserted_id)], db'))"

text \<open>
  \<^verbatim>\<open>
  def create_booking(payload):
      try:
          tid = ObjectId(payload.data.tutor_id)
      except Exception:
          raise HTTPException(status_code=400, detail="Invalid tutor_id")
      tutor = db["tutor"].find_one({"_id": tid}) if db else None
      if not tutor:
          raise HTTPException(status_code=404, detail="Tutor not found")
      inserted_id = create_document("booking", payload.data)
      return {"id": inserted_id, "status": "pending"}
  \<close>
  The truth value of the handle \<open>db\<close> is taken as that of a plain object: true unless it
  is \<open>None\<close>. \<open>tutor_lookup\<close> is the right-hand side of the assignment to \<open>tutor\<close>.
\<close>

text \<open>The tutor collection holds a document with the identifier \<open>tid\<close>.\<close>

definition has_tutor :: "database \<Rightarrow> ObjectId \<Rightarrow> bool" where
  "has_tutor s tid =
     (\<exists>d \<in> set (collections s ''tutor''). map_of d ''_id'' = Some (PObjectId tid))"

text \<open>The store after one document has been inserted into collection \<open>c\<close>.\<close>

definition inserted :: "database \<Rightarrow> string \<Rightarrow> doc \<Rightarrow> database" where
  "inserted s c d =
     s\<lparr>collections :=
         (collections s)(c := collections s c @ [(''_id'', PObjectId (fresh_ObjectId (next_oid s))) # d]),
       next_oid := Suc (next_oid s)\<rparr>"

definition tutor_lookup :: "database option \<Rightarrow> ObjectId \<Rightarrow> exn + doc option" where
  "tutor_lookup db tid =
     (case db of
        None \<Rightarrow> Inr None
      | Some s \<Rightarrow> find_one s ''tutor'' [(''_id'', PObjectId tid)])"

definition tutor_id_of :: "doc \<Rightarrow> exn + ObjectId" where
  "tutor_id_of data =
     (case map_of data ''tutor_id'' of None \<Rightarrow> Inl AttributeError | Some v \<Rightarrow> ObjectId_new v)"

definition create_booking :: "doc \<Rightarrow> database option \<Rightarrow> (exn + doc) \<times> database option" where
  "create_booking data db =
     (case tutor_id_of data of
        Inl e \<Rightarrow> (Inl (HTTPException 400 ''Invalid tutor_id''), db)
      | Inr tid \<Rightarrow>
          (case tutor_lookup db tid of
             Inl e \<Rightarrow> (Inl e, db)
           | Inr tutor \<Rightarrow>
               if tutor = None \<or> tutor = Some []
               then (Inl (HTTPException 404 ''Tutor not found''), db)
               else (case create_document ''booking'' data db of
                       (Inl e, db') \<Rightarrow> (Inl e, db')
                     | (Inr inserted_id, db') \<Rightarrow>
                         (Inr [(''id'', PStr inserted_id), (''status'', PStr ''pending'')], db'))))"

subsection \<open>The routes: validation, then the handler\<close>

definition post_materials :: "pyval \<Rightarrow> database option \<Rightarrow> (exn + doc) \<times> database option" where
  "post_materials body db =
     (case validate_payload Material body of
        Inl e \<Rightarrow> (Inl e, db)
      | Inr data \<Rightarrow> create_material data db)"

definition post_tutors :: "pyval \<Rightarrow> database option \<Rightarrow> (exn + doc) \<times> database option" where
  "post_tutors body db =
     (case validate_payload Tutor body of
        Inl e \<Rightarrow> (Inl e, db)
      | Inr data \<Rightarrow> create_tutor data db)"

definition post_bookings :: "pyval \<Rightarrow> database option \<Rightarrow> (exn + doc) \<times> database option" where
  "post_bookings body db =
     (case validate_payload Booking body of
        Inl e \<Rightarrow> (Inl e, db)
      | Inr data \<Rightarrow> create_booking data db)"

subsection \<open>Seeding at startup (lines 41-104)\<close>

text \<open>
  The demo payloads of \<^verbatim>\<open>seed_demo\<close>, named as in section 8 of the specification.
\<close>

definition material_A :: doc where
  "material_A =
     [(''title'', PStr ''Data Structures Reviewer''),
      (''description'', PStr ''Key concepts + sample problems''),
      (''course'', PStr ''Information Technology''),
      (''subject'', PStr ''Data Structures''),
      (''type'', PStr ''Reviewer''),
      (''price'', PNum 50),
      (''author_name'', PStr ''Alex Cruz''),
      (''university'', PStr ''Pamantasan ng Lungsod ng Valenzuela''),
      (''file_url'', PNone),
      (''rating'', PNum 4.9),
      (''downloads'', PNum 120)]"

definition material_B :: doc where
  "material_B =
     [(''title'', PStr ''Circuit Analysis Handout''),
      (''description'', PStr (''Ohm'' @ [CHR 0x27] @ ''s law to Thevenin'')),
      (''course'', PStr ''Electrical Engineering''),
      (''subject'', PStr ''Circuit Analysis''),
      (''type'', PStr ''Handout''),
      (''price'', PNum 0),
      (''author_name'', PStr ''J. Dizon''),
      (''university'', PStr ''Pamantasan ng Lungsod ng Valenzuela''),
      (''file_url'', PNone),
      (''rating'', PNum 4.7),
      (''downloads'', PNum 88)]"

definition demo_materials :: "doc list" where
  "demo_materials = [material_A, material_B]"

definition tutor_A :: doc where
  "tutor_A =
     [(''name'', PStr ''Maria Santos''),
      (''course'', PStr ''Information Technology''),
      (''subjects'', PList [PStr ''Programming 1'', PStr ''Data Structures'']),
      (''rate_per_hour'', PNum 200),
      (''modes'', PList [PStr ''One-on-One'', PStr ''Group'']),
      (''bio'', PStr (''3rd year IT student, dean'' @ [CHR 0x27] @ ''s lister'')),
      (''availability'', PList [PStr ''Mon 7-9pm'', PStr ''Wed 8-10pm'']),
      (''rating'', PNum 4.9)]"

definition tutor_B :: doc where
  "tutor_B =
     [(''name'', PStr ''Mark Reyes''),
      (''course'', PStr ''Civil Engineering''),
      (''subjects'', PList [PStr ''Statics'', PStr ''Strength of Materials'']),
      (''rate_per_hour'', PNum 250),
      (''modes'', PList [PStr ''One-on-One'']),
      (''bio'', PStr ''Board topnotcher reviewee''),
      (''availability'', PList [PStr ''Sat 2-5pm'']),
      (''rating'', PNum 4.8)]"

definition demo_tutors :: "doc list" where
  "demo_tutors = [tutor_A, tutor_B]"

text \<open>\<^verbatim>\<open>for m in docs: db[c].insert_one(m)\<close>: the loop ends at the first exception.\<close>

fun insert_each :: "database \<Rightarrow> string \<Rightarrow> doc list \<Rightarrow> (exn + unit) \<times> database" where
  "insert_each s c [] = (Inr (), s)"
| "insert_each s c (m # ms) =
     (case insert_one s c m of
        (Inl e, s') \<Rightarrow> (Inl e, s')
      | (Inr oid, s') \<Rightarrow> insert_each s' c ms)"

text \<open>
  The body of the \<^verbatim>\<open>try\<close> block:
  \<^verbatim>\<open>
  if db is None:
      return
  if db["material"].count_documents({}) == 0:
      for m in demo_materials: db["material"].insert_one(m)
  if db["tutor"].count_documents({}) == 0:
      for t in demo_tutors: db["tutor"].insert_one(t)
  \<close>
\<close>

definition seed_demo_try :: "database option \<Rightarrow> (exn + unit) \<times> database option" where
  "seed_demo_try db =
     (case db of
        None \<Rightarrow> (Inr (), db)
      | Some s \<Rightarrow>
          (case count_documents s ''material'' of
             Inl e \<Rightarrow> (Inl e, Some s)
           | Inr n \<Rightarrow>
               (case (if n = 0 then insert_each s ''material'' demo_materials else (Inr (), s)) of
                  (Inl e, s1) \<Rightarrow> (Inl e, Some s1)
                | (Inr u, s1) \<Rightarrow>
                    (case count_documents s1 ''tutor'' of
                       Inl e \<Rightarrow> (Inl e, Some s1)
                     | Inr k \<Rightarrow>
                         (case (if k = 0 then insert_each s1 ''tutor'' demo_tutors
                                else (Inr (), s1)) of
                            (Inl e, s2) \<Rightarrow> (Inl e, Some s2)
                          | (Inr u', s2) \<Rightarrow> (Inr (), Some s2))))))"

text \<open>\<^verbatim>\<open>except Exception: pass\<close>: whatever the body raised, the startup hook returns.\<close>

definition seed_demo :: "database option \<Rightarrow> (exn + unit) \<times> database option" where
  "seed_demo db =
     (case seed_demo_try db of
        (Inl e, db') \<Rightarrow> (Inr (), db')
      | (Inr u, db') \<Rightarrow> (Inr (), db'))"

section \<open>Vocabulary of the properties\<close>

text \<open>
  The closed enumerations of the three models: model, route, field, the documented
  values, and whether the field holds a list of them.
\<close>

type_synonym route = "pyval \<Rightarrow> database option \<Rightarrow> (exn + doc) \<times> database option"

definition closed_enumerations :: "(FieldInfo list \<times> route \<times> string \<times> string list \<times> bool) list" where
  "closed_enumerations =
     [(Material, post_materials, ''course'',
         [''Information Technology'', ''Electrical Engineering'', ''Civil Engineering'',
          ''Business Administration'', ''Education'', ''Nursing'', ''Accountancy'',
          ''Hospitality Management''], False),
      (Material, post_materials, ''type'',
         [''Reviewer'', ''Class Notes'', ''Handout'', ''Problem Set'', ''Cheat Sheet''], False),
      (Tutor, post_tutors, ''course'',
         [''Information Technology'', ''Electrical Engineering'', ''Civil Engineering'',
          ''Business Administration'', ''Education'', ''Nursing'', ''Accountancy'',
          ''Hospitality Management''], False),
      (Tutor, post_tutors, ''modes'', [''One-on-One'', ''Group''], True),
      (Booking, post_bookings, ''mode'', [''One-on-One'', ''Group''], False),
      (Booking, post_bookings, ''status'', [''pending'', ''confirmed'', ''cancelled''], False)]"

text \<open>A value lies in an enumeration; for a list field, it is a list of such values.\<close>

definition in_enumeration :: "string list \<Rightarrow> bool \<Rightarrow> pyval \<Rightarrow> bool" where
  "in_enumeration ls is_list v =
     (if is_list
      then (case v of PList xs \<Rightarrow> list_all (\<lambda>x. x \<in> PStr ` set ls) xs | _ \<Rightarrow> False)
      else v \<in> PStr ` set ls)"

text \<open>
  The text search of the listings, in the words of the specification. A material matches
  \<open>q\<close> when \<open>lower(q)\<close> occurs in \<open>lower(title)\<close> or in \<open>lower(description or "")\<close>; a tutor
  matches \<open>subject\<close> when \<open>lower(subject)\<close> occurs in the lower-cased form of some element
  of its \<open>subjects\<close> list.
\<close>

definition text_of :: "doc \<Rightarrow> string \<Rightarrow> string" where
  "text_of d k = (case map_of d k of Some (PStr t) \<Rightarrow> t | _ \<Rightarrow> [])"

definition material_matches :: "string \<Rightarrow> doc \<Rightarrow> bool" where
  "material_matches q d =
     (sublist (lower q) (lower (text_of d ''title''))
      \<or> sublist (lower q) (lower (text_of d ''description'')))"

definition subjects_of :: "doc \<Rightarrow> pyval list" where
  "subjects_of d = (case map_of d ''subjects'' of Some (PList xs) \<Rightarrow> xs | _ \<Rightarrow> [])"

definition tutor_matches :: "string \<Rightarrow> doc \<Rightarrow> bool" where
  "tutor_matches subject d =
     list_ex (\<lambda>x. case x of PStr t \<Rightarrow> sublist (lower subject) (lower t) | _ \<Rightarrow> False)
       (subjects_of d)"

text \<open>
  The equality filters on \<open>course\<close> and \<open>subject\<close>: a parameter that is absent or empty
  filters nothing.
\<close>

definition equals_param :: "string \<Rightarrow> string option \<Rightarrow> doc \<Rightarrow> bool" where
  "equals_param k p d = (case given p of None \<Rightarrow> True | Some x \<Rightarrow> map_of d k = Some (PStr x))"

text \<open>
  The shape of stored documents that the listings rely on, and that validation and
  seeding establish: a material's title is a string, its description a string or \<open>None\<close>;
  a tutor's subjects are a list of strings. A field may also be absent.
\<close>

definition material_texts :: "doc \<Rightarrow> bool" where
  "material_texts d =
     ((case map_of d ''title'' of None \<Rightarrow> True | Some (PStr t) \<Rightarrow> True | Some v \<Rightarrow> False)
      \<and> (case map_of d ''description'' of
            None \<Rightarrow> True | Some (PStr t) \<Rightarrow> True | Some PNone \<Rightarrow> True | Some v \<Rightarrow> False))"

definition tutor_subjects :: "doc \<Rightarrow> bool" where
  "tutor_subjects d =
     (case map_of d ''subjects'' of
        None \<Rightarrow> True
      | Some (PList xs) \<Rightarrow> list_all (\<lambda>x. case x of PStr t \<Rightarrow> True | _ \<Rightarrow> False) xs
      | Some v \<Rightarrow> False)"

text \<open>
  What seeding a collection amounts to: an empty collection receives the demo documents,
  with the next identifiers; a collection that has documents is left alone.
\<close>

definition seeded :: "database \<Rightarrow> string \<Rightarrow> doc list \<Rightarrow> database" where
  "seeded s c ds =
     (if collections s c = []
      then s\<lparr>collections := (collections s)(c := with_ids (next_oid s) ds),
             next_oid := next_oid s + length ds\<rparr>
      else s)"

text \<open>The three resource kinds with their routes.\<close>

definition resources :: "(FieldInfo list \<times> route) list" where
  "resources = [(Material, post_materials), (Tutor, post_tutors), (Booking, post_bookings)]"

section \<open>Concrete stores and requests\<close>

text \<open>
  A reachable store without documents; a store holding one tutor, whose identifier is
  the first one drawn; and a booking request for that tutor, with and without a status.
\<close>

definition empty_store :: database where
  "empty_store = \<lparr>collections = (\<lambda>c. []), next_oid = 0, reachable = True\<rparr>"

definition unreachable_store :: database where
  "unreachable_store = \<lparr>collections = (\<lambda>c. []), next_oid = 0, reachable = False\<rparr>"

text \<open>The store that holds the demo documents and nothing else.\<close>

definition seeded_store :: database where
  "seeded_store =
     \<lparr>collections = (\<lambda>c. [])(''material'' := with_ids 0 demo_materials,
                                 ''tutor'' := with_ids 2 demo_tutors),
      next_oid = 4, reachable = True\<rparr>"

definition tutor_store :: database where
  "tutor_store = inserted empty_store ''tutor'' tutor_B"

definition booking_input :: "string \<Rightarrow> doc" where
  "booking_input tid =
     [(''tutor_id'', PStr tid),
      (''student_name'', PStr ''X''),
      (''student_email'', PStr ''x@y''),
      (''mode'', PStr ''One-on-One''),
      (''session_datetime'', PStr ''Mon 7pm''),
      (''duration_hours'', PNum 1.5)]"

definition booking_data :: "string \<Rightarrow> string \<Rightarrow> doc" where
  "booking_data tid st =
     [(''tutor_id'', PStr tid),
      (''student_name'', PStr ''X''),
      (''student_email'', PStr ''x@y''),
      (''mode'', PStr ''One-on-One''),
      (''session_datetime'', PStr ''Mon 7pm''),
      (''duration_hours'', PNum 1.5),
      (''group_size'', PNone),
      (''notes'', PNone),
      (''status'', PStr st)]"

definition payload :: "doc \<Rightarrow> pyval" where
  "payload input = PDict [(''data'', PDict input)]"

text \<open>A material body that gives the required fields only, for a chosen course.\<close>

definition material_input :: "string \<Rightarrow> doc" where
  "material_input c =
     [(''title'', PStr ''Algebra Notes''),
      (''course'', PStr c),
      (''subject'', PStr ''Algebra''),
      (''type'', PStr ''Class Notes''),
      (''author_name'', PStr ''Ana'')]"

definition material_data :: "string \<Rightarrow> doc" where
  "material_data c =
     [(''title'', PStr ''Algebra Notes''),
      (''description'', PNone),
      (''course'', PStr c),
      (''subject'', PStr ''Algebra''),
      (''type'', PStr ''Class Notes''),
      (''price'', PNum 0),
      (''author_name'', PStr ''Ana''),
      (''university'', PStr ''Pamantasan ng Lungsod ng Valenzuela''),
      (''file_url'', PNone),
      (''rating'', PNum 4.8),
      (''downloads'', PNum 0)]"

text \<open>A tutor body that gives the required fields only, and the store holding that tutor.\<close>

definition tutor_input :: doc where
  "tutor_input =
     [(''name'', PStr ''Ana''),
      (''course'', PStr ''Nursing''),
      (''rate_per_hour'', PNum 150)]"

definition tutor_data :: doc where
  "tutor_data =
     [(''name'', PStr ''Ana''),
      (''course'', PStr ''Nursing''),
      (''subjects'', PList []),
      (''rate_per_hour'', PNum 150),
      (''modes'', PList [PStr ''One-on-One'']),
      (''bio'', PNone),
      (''availability'', PList []),
      (''rating'', PNum 4.9)]"

definition new_tutor_store :: database where
  "new_tutor_store = inserted empty_store ''tutor'' tutor_data"

section \<open>Serialization\<close>

lemma serialize_doc_oid:
  "map_of doc ''_id'' = Some (PObjectId oid) \<Longrightarrow>
   serialize_doc doc = AList.delete ''_id'' (AList.update ''id'' (PStr (str_ObjectId oid)) doc)"
  by (auto simp: serialize_doc_def)

lemma serialize_doc_other_key:
  "k \<noteq> ''_id'' \<Longrightarrow> k \<noteq> ''id'' \<Longrightarrow> map_of (serialize_doc doc) k = map_of doc k"
  by (simp add: serialize_doc_def update_conv' split: option.splits pyval.splits)

text \<open>
  Claim C7. A document that carries the store's identifier under \<open>_id\<close> (every document
  read from the store does) is serialized by removing the key \<open>_id\<close>, adding the key
  \<open>id\<close> with the identifier as a string, and leaving the value of every other key as it was.
\<close>

theorem serialize_doc_renames_id:
  assumes "map_of doc ''_id'' = Some (PObjectId oid)"
  shows "map_of (serialize_doc doc) ''_id'' = None
       \<and> map_of (serialize_doc doc) ''id'' = Some (PStr (str_ObjectId oid))
       \<and> (\<forall>k. k \<noteq> ''_id'' \<and> k \<noteq> ''id'' \<longrightarrow> map_of (serialize_doc doc) k = map_of doc k)"
proof (intro conjI allI impI)
  show "map_of (serialize_doc doc) ''_id'' = None"
    by (simp add: serialize_doc_oid [OF assms] delete_conv')
  show "map_of (serialize_doc doc) ''id'' = Some (PStr (str_ObjectId oid))"
    by (simp add: serialize_doc_oid [OF assms] update_conv')
  show "map_of (serialize_doc doc) k = map_of doc k" if "k \<noteq> ''_id'' \<and> k \<noteq> ''id''" for k
    using that by (simp add: serialize_doc_other_key)
qed

theorem serialize_doc_renames_id_witness:
  "map_of [(''_id'', PObjectId (ObjectId ''0123456789abcdef01234567'')),
           (''title'', PStr ''Notes''), (''price'', PNum 50)] ''_id''
     = Some (PObjectId (ObjectId ''0123456789abcdef01234567''))
   \<and> serialize_doc [(''_id'', PObjectId (ObjectId ''0123456789abcdef01234567'')),
                    (''title'', PStr ''Notes''), (''price'', PNum 50)]
     = [(''title'', PStr ''Notes''), (''price'', PNum 50),
        (''id'', PStr ''0123456789abcdef01234567'')]
   \<and> map_of (serialize_doc [(''_id'', PObjectId (ObjectId ''0123456789abcdef01234567'')),
                    (''title'', PStr ''Notes''), (''price'', PNum 50)]) ''title''
     = Some (PStr ''Notes'')"
proof -
  let ?d = "[(''_id'', PObjectId (ObjectId ''0123456789abcdef01234567'')),
             (''title'', PStr ''Notes''), (''price'', PNum 50)]"
  have h: "map_of ?d ''_id'' = Some (PObjectId (ObjectId ''0123456789abcdef01234567''))"
    by simp
  from serialize_doc_renames_id [OF h]
  have "map_of (serialize_doc ?d) ''title'' = map_of ?d ''title''" by simp
  moreover have "serialize_doc ?d
     = [(''title'', PStr ''Notes''), (''price'', PNum 50),
        (''id'', PStr ''0123456789abcdef01234567'')]"
    by (simp add: serialize_doc_def)
  ultimately show ?thesis using h by simp
qed

section \<open>Validation: what is accepted and what is reported\<close>

lemma validate_fields_eq:
  "validate_fields fs input =
     (map field_name (filter (offending input) fs),
      map (field_value input) (filter (\<lambda>f. \<not> offending input f) fs))"
proof (induction fs)
  case Nil
  show ?case by simp
next
  case (Cons f fs)
  obtain n t d bs where f: "f = Field n t d bs" by (cases f)
  show ?case
    unfolding f using Cons.IH
    by (cases d) (simp_all split: option.splits)
qed

lemma model_validate_Inr:
  "model_validate model input = Inr data \<longleftrightarrow>
     (\<forall>f \<in> set model. \<not> offending input f) \<and> data = map (field_value input) model"
  by (auto simp: model_validate_def validate_fields_eq filter_empty_conv filter_id_conv)

lemma model_validate_Inl:
  "model_validate model input = Inl errs \<longleftrightarrow>
     errs \<noteq> [] \<and> errs = map field_name (filter (offending input) model)"
  by (auto simp: model_validate_def validate_fields_eq)

lemma validate_payload_Inr:
  "validate_payload model body = Inr data \<longleftrightarrow>
     (\<exists>kvs input. body = PDict kvs \<and> map_of kvs ''data'' = Some (PDict input)
        \<and> model_validate model input = Inr data)"
  by (auto simp: validate_payload_def split: pyval.splits option.splits sum.splits)

section \<open>Bookings\<close>

lemma conforms_T_str: "conforms T_str v \<longleftrightarrow> (\<exists>s. v = PStr s)"
  by (cases v) simp_all

lemma Booking_tutor_id:
  assumes "model_validate Booking input = Inr data"
  shows "\<exists>s. map_of input ''tutor_id'' = Some (PStr s) \<and> map_of data ''tutor_id'' = Some (PStr s)"
proof -
  from assms have ok: "\<not> offending input (Field ''tutor_id'' T_str Required [])"
    and data: "data = map (field_value input) Booking"
    by (simp_all add: model_validate_Inr Booking_def)
  from ok obtain s where "map_of input ''tutor_id'' = Some (PStr s)"
    by (auto split: option.splits pyval.splits)
  then show ?thesis by (simp add: data Booking_def)
qed

lemma insert_one_reachable:
  "reachable s \<Longrightarrow> insert_one s c d = (Inr (fresh_ObjectId (next_oid s)), inserted s c d)"
  by (simp add: insert_one_def inserted_def Let_def)

lemma insert_one_unreachable: "\<not> reachable s \<Longrightarrow> insert_one s c d = (Inl StoreError, s)"
  by (simp add: insert_one_def)

lemma create_document_reachable:
  "reachable s \<Longrightarrow>
   create_document c d (Some s) =
     (Inr (str_ObjectId (fresh_ObjectId (next_oid s))), Some (inserted s c d))"
  by (simp add: create_document_def insert_one_reachable)

lemma create_document_Inr:
  assumes "create_document c d db = (Inr i, db')"
  shows "\<exists>s. db = Some s \<and> reachable s \<and> i = str_ObjectId (fresh_ObjectId (next_oid s))
           \<and> db' = Some (inserted s c d)"
proof (cases db)
  case None
  with assms show ?thesis by (simp add: create_document_def)
next
  case (Some s)
  with assms show ?thesis
    by (cases "reachable s")
       (simp_all add: create_document_def insert_one_reachable insert_one_unreachable)
qed

lemma matches_id: "matches [(''_id'', v)] d \<longleftrightarrow> map_of d ''_id'' = Some v"
  by (simp add: matches_def)

lemma tutor_lookup_reachable:
  "reachable s \<Longrightarrow>
   tutor_lookup (Some s) tid =
     Inr (List.find (matches [(''_id'', PObjectId tid)]) (collections s ''tutor''))"
  by (simp add: tutor_lookup_def find_one_def)

lemma find_tutor_None:
  "List.find (matches [(''_id'', PObjectId tid)]) (collections s ''tutor'') = None
     \<longleftrightarrow> \<not> has_tutor s tid"
  by (auto simp: find_None_iff matches_id has_tutor_def)

lemma find_by_id_nonempty: "List.find (matches [(''_id'', v)]) xs \<noteq> Some []"
proof
  assume "List.find (matches [(''_id'', v)]) xs = Some []"
  then have "matches [(''_id'', v)] []" by (auto simp: find_Some_iff)
  then show False by (simp add: matches_id)
qed

lemma create_booking_400:
  "tutor_id_of data = Inl e \<Longrightarrow> create_booking data db = (Inl (HTTPException 400 ''Invalid tutor_id''), db)"
  by (simp add: create_booking_def)

lemma create_booking_404_None:
  "tutor_id_of data = Inr tid \<Longrightarrow> create_booking data None = (Inl (HTTPException 404 ''Tutor not found''), None)"
  by (simp add: create_booking_def tutor_lookup_def)

lemma create_booking_404:
  assumes "tutor_id_of data = Inr tid" "reachable s" "\<not> has_tutor s tid"
  shows "create_booking data (Some s) = (Inl (HTTPException 404 ''Tutor not found''), Some s)"
  using assms by (simp add: create_booking_def tutor_lookup_reachable find_tutor_None)

lemma create_booking_ok:
  assumes "tutor_id_of data = Inr tid" "reachable s" "has_tutor s tid"
  shows "create_booking data (Some s) =
     (Inr [(''id'', PStr (str_ObjectId (fresh_ObjectId (next_oid s)))), (''status'', PStr ''pending'')],
      Some (inserted s ''booking'' data))"
  using assms
  by (simp add: create_booking_def tutor_lookup_reachable find_tutor_None find_by_id_nonempty
      create_document_reachable)

lemma create_booking_Inr:
  assumes "create_booking data db = (Inr resp, db')"
  shows "\<exists>s. db = Some s \<and> reachable s
           \<and> resp = [(''id'', PStr (str_ObjectId (fresh_ObjectId (next_oid s)))),
                      (''status'', PStr ''pending'')]
           \<and> db' = Some (inserted s ''booking'' data)"
proof -
  from assms obtain i where "create_document ''booking'' data db = (Inr i, db')"
    and "resp = [(''id'', PStr i), (''status'', PStr ''pending'')]"
    by (auto simp: create_booking_def split: sum.splits if_splits prod.splits)
  with create_document_Inr [of "''booking''" data db i db'] show ?thesis by auto
qed

lemma tutor_id_of_str:
  "map_of data ''tutor_id'' = Some (PStr ts) \<Longrightarrow>
   tutor_id_of data = (case ObjectId_of_str ts of None \<Rightarrow> Inl InvalidId | Some tid \<Rightarrow> Inr tid)"
  by (simp add: tutor_id_of_def)

lemma post_bookings_valid:
  "validate_payload Booking body = Inr data \<Longrightarrow> post_bookings body db = create_booking data db"
  by (simp add: post_bookings_def)

text \<open>
  Claim C1. A booking request whose body passes validation carries a string \<open>tutor_id\<close>.
  If that string is not a 24-hex identifier, the answer is 400 and the store is unchanged.
  Otherwise, if no tutor document has that identifier (no store is configured, or the
  reachable store holds no such tutor), the answer is 404 and the store is unchanged.
  Otherwise the booking is inserted and the answer is the new identifier together with
  the status \<open>pending\<close>.
\<close>

theorem post_bookings_flow:
  assumes "validate_payload Booking body = Inr data"
  shows "\<exists>ts. map_of data ''tutor_id'' = Some (PStr ts)
     \<and> (ObjectId_of_str ts = None \<longrightarrow>
          post_bookings body db = (Inl (HTTPException 400 ''Invalid tutor_id''), db))
     \<and> (\<forall>tid. ObjectId_of_str ts = Some tid \<longrightarrow>
          (db = None \<longrightarrow>
             post_bookings body db = (Inl (HTTPException 404 ''Tutor not found''), db))
        \<and> (\<forall>s. db = Some s \<and> reachable s \<and> \<not> has_tutor s tid \<longrightarrow>
             post_bookings body db = (Inl (HTTPException 404 ''Tutor not found''), db))
        \<and> (\<forall>s. db = Some s \<and> reachable s \<and> has_tutor s tid \<longrightarrow>
             post_bookings body db =
               (Inr [(''id'', PStr (str_ObjectId (fresh_ObjectId (next_oid s)))),
                     (''status'', PStr ''pending'')],
                Some (inserted s ''booking'' data))))"
proof -
  from assms obtain kvs input where "model_validate Booking input = Inr data"
    by (auto simp: validate_payload_Inr)
  then obtain ts where ts: "map_of data ''tutor_id'' = Some (PStr ts)"
    using Booking_tutor_id by blast
  note eq = post_bookings_valid [OF assms] tutor_id_of_str [OF ts]
  show ?thesis
  proof (intro exI [of _ ts] conjI allI impI)
    show "map_of data ''tutor_id'' = Some (PStr ts)" by (rule ts)
  next
    assume "ObjectId_of_str ts = None"
    then show "post_bookings body db = (Inl (HTTPException 400 ''Invalid tutor_id''), db)"
      by (simp add: eq create_booking_400)
  next
    fix tid assume "ObjectId_of_str ts = Some tid" "db = None"
    then show "post_bookings body db = (Inl (HTTPException 404 ''Tutor not found''), db)"
      by (simp add: eq create_booking_404_None)
  next
    fix tid s
    assume "ObjectId_of_str ts = Some tid" "db = Some s \<and> reachable s \<and> \<not> has_tutor s tid"
    then show "post_bookings body db = (Inl (HTTPException 404 ''Tutor not found''), db)"
      by (simp add: eq create_booking_404)
  next
    fix tid s
    assume "ObjectId_of_str ts = Some tid" "db = Some s \<and> reachable s \<and> has_tutor s tid"
    then show "post_bookings body db =
               (Inr [(''id'', PStr (str_ObjectId (fresh_ObjectId (next_oid s)))),
                     (''status'', PStr ''pending'')],
                Some (inserted s ''booking'' data))"
      by (simp add: eq create_booking_ok)
  qed
qed

lemma fresh_ObjectId_0: "fresh_ObjectId 0 = ObjectId ''000000000000000000000000''"
  by code_simp

lemma fresh_ObjectId_1: "fresh_ObjectId (Suc 0) = ObjectId ''000000000000000000000001''"
  by code_simp

lemma ObjectId_of_str_zeros:
  "ObjectId_of_str ''000000000000000000000000'' = Some (ObjectId ''000000000000000000000000'')"
  by (simp add: ObjectId_of_str_def is_hex_char_def lower_def lower_char_def)

lemma validate_booking_input:
  "validate_payload Booking (payload (booking_input tid)) = Inr (booking_data tid ''pending'')"
  by (simp add: validate_payload_def payload_def model_validate_def Booking_def booking_input_def
      booking_data_def session_modes_def)

lemma validate_booking_input_confirmed:
  "validate_payload Booking (payload (booking_input tid @ [(''status'', PStr ''confirmed'')]))
     = Inr (booking_data tid ''confirmed'')"
  by (simp add: validate_payload_def payload_def model_validate_def Booking_def booking_input_def
      booking_data_def session_modes_def booking_statuses_def)

lemma tutor_store_simps:
  "reachable tutor_store" "next_oid tutor_store = Suc 0"
  "has_tutor tutor_store (ObjectId ''000000000000000000000000'')"
  by (simp_all add: tutor_store_def inserted_def empty_store_def has_tutor_def fresh_ObjectId_0)

theorem post_bookings_flow_witness:
  "validate_payload Booking (payload (booking_input ''000000000000000000000000''))
     = Inr (booking_data ''000000000000000000000000'' ''pending'')
   \<and> post_bookings (payload (booking_input ''000000000000000000000000'')) (Some tutor_store)
     = (Inr [(''id'', PStr ''000000000000000000000001''), (''status'', PStr ''pending'')],
        Some (inserted tutor_store ''booking'' (booking_data ''000000000000000000000000'' ''pending'')))"
proof -
  have h: "validate_payload Booking (payload (booking_input ''000000000000000000000000''))
     = Inr (booking_data ''000000000000000000000000'' ''pending'')"
    by (rule validate_booking_input)
  from post_bookings_flow [OF h, of "Some tutor_store"]
  obtain ts where ts: "map_of (booking_data ''000000000000000000000000'' ''pending'') ''tutor_id'' = Some (PStr ts)"
    and ok: "\<forall>tid. ObjectId_of_str ts = Some tid \<longrightarrow>
        (\<forall>s. Some tutor_store = Some s \<and> reachable s \<and> has_tutor s tid \<longrightarrow>
             post_bookings (payload (booking_input ''000000000000000000000000'')) (Some tutor_store) =
               (Inr [(''id'', PStr (str_ObjectId (fresh_ObjectId (next_oid s)))),
                     (''status'', PStr ''pending'')],
                Some (inserted s ''booking'' (booking_data ''000000000000000000000000'' ''pending''))))"
    by blast
  from ts have "ts = ''000000000000000000000000''" by (simp add: booking_data_def)
  with ok show ?thesis
    by (simp add: h ObjectId_of_str_zeros tutor_store_simps fresh_ObjectId_1)
qed

lemma collections_inserted:
  "collections (inserted s c d) c
     = collections s c @ [(''_id'', PObjectId (fresh_ObjectId (next_oid s))) # d]"
  by (simp add: inserted_def)

lemma Booking_status:
  assumes "model_validate Booking input = Inr data"
  shows "map_of data ''status''
           = Some (case map_of input ''status'' of None \<Rightarrow> PStr ''pending'' | Some v \<Rightarrow> v)"
    and "\<And>v. map_of input ''status'' = Some v \<Longrightarrow> v \<in> PStr ` set booking_statuses"
proof -
  from assms have ok: "\<not> offending input (Field ''status'' (T_Literal booking_statuses) (Default (PStr ''pending'')) [])"
    and data: "data = map (field_value input) Booking"
    by (simp_all add: model_validate_Inr Booking_def)
  show "map_of data ''status''
           = Some (case map_of input ''status'' of None \<Rightarrow> PStr ''pending'' | Some v \<Rightarrow> v)"
    by (simp add: data Booking_def split: option.splits)
  show "v \<in> PStr ` set booking_statuses" if "map_of input ''status'' = Some v" for v
    using ok that by (cases v) auto
qed

lemma post_bookings_confirmed:
  "post_bookings (payload (booking_input ''000000000000000000000000'' @ [(''status'', PStr ''confirmed'')]))
       (Some tutor_store)
     = (Inr [(''id'', PStr ''000000000000000000000001''), (''status'', PStr ''pending'')],
        Some (inserted tutor_store ''booking'' (booking_data ''000000000000000000000000'' ''confirmed'')))"
  by (simp add: post_bookings_valid [OF validate_booking_input_confirmed] tutor_store_simps
      create_booking_ok [of _ "ObjectId ''000000000000000000000000''"] tutor_id_of_def
      booking_data_def ObjectId_of_str_zeros fresh_ObjectId_1)

lemma post_bookings_Inr:
  assumes "post_bookings body db = (Inr resp, db')"
  shows "map_of resp ''status'' = Some (PStr ''pending'')
     \<and> (\<exists>kvs input s s' stored.
           body = PDict kvs \<and> map_of kvs ''data'' = Some (PDict input)
         \<and> db = Some s \<and> db' = Some s'
         \<and> collections s' ''booking'' = collections s ''booking'' @ [stored]
         \<and> (\<forall>v. map_of input ''status'' = Some v \<longrightarrow>
                v \<in> PStr ` set booking_statuses \<and> map_of stored ''status'' = Some v)
         \<and> (map_of input ''status'' = None \<longrightarrow> map_of stored ''status'' = Some (PStr ''pending'')))"
proof -
  from assms obtain data where v: "validate_payload Booking body = Inr data"
    and cb: "create_booking data db = (Inr resp, db')"
    by (auto simp: post_bookings_def split: sum.splits)
  from v obtain kvs input where body: "body = PDict kvs" "map_of kvs ''data'' = Some (PDict input)"
    and mv: "model_validate Booking input = Inr data"
    by (auto simp: validate_payload_Inr)
  from create_booking_Inr [OF cb] obtain s where s: "db = Some s"
    and resp: "resp = [(''id'', PStr (str_ObjectId (fresh_ObjectId (next_oid s)))),
                      (''status'', PStr ''pending'')]"
    and db': "db' = Some (inserted s ''booking'' data)"
    by blast
  let ?stored = "(''_id'', PObjectId (fresh_ObjectId (next_oid s))) # data"
  have st: "map_of ?stored ''status''
           = Some (case map_of input ''status'' of None \<Rightarrow> PStr ''pending'' | Some v \<Rightarrow> v)"
    using Booking_status(1) [OF mv] by simp
  show ?thesis
  proof (rule conjI, goal_cases)
    case 1
    show ?case by (simp add: resp)
  next
    case 2
    show ?case
    proof (rule exI [of _ kvs], rule exI [of _ input], rule exI [of _ s],
        rule exI [of _ "inserted s ''booking'' data"], rule exI [of _ ?stored], intro conjI)
    show "body = PDict kvs" "map_of kvs ''data'' = Some (PDict input)" by (rule body)+
    show "db = Some s" by (rule s)
    show "db' = Some (inserted s ''booking'' data)" by (rule db')
    show "collections (inserted s ''booking'' data) ''booking'' = collections s ''booking'' @ [?stored]"
      by (rule collections_inserted)
    show "\<forall>v. map_of input ''status'' = Some v \<longrightarrow>
                v \<in> PStr ` set booking_statuses \<and> map_of ?stored ''status'' = Some v"
      using Booking_status(2) [OF mv] st by simp
    show "map_of input ''status'' = None \<longrightarrow> map_of ?stored ''status'' = Some (PStr ''pending'')"
      using st by simp
    qed
  qed
qed


text \<open>
  Claim C10. Whenever a booking request succeeds, the response reports the status
  \<open>pending\<close>, while the stored booking keeps the status the client supplied (one of
  \<open>pending\<close>, \<open>confirmed\<close>, \<open>cancelled\<close>) or \<open>pending\<close> when none was supplied. There is a
  successful request whose stored status, \<open>confirmed\<close>, differs from the reported one.
\<close>

theorem post_bookings_reports_pending:
  "(\<forall>body db resp db'. post_bookings body db = (Inr resp, db') \<longrightarrow>
       map_of resp ''status'' = Some (PStr ''pending'')
     \<and> (\<exists>kvs input s s' stored.
           body = PDict kvs \<and> map_of kvs ''data'' = Some (PDict input)
         \<and> db = Some s \<and> db' = Some s'
         \<and> collections s' ''booking'' = collections s ''booking'' @ [stored]
         \<and> (\<forall>v. map_of input ''status'' = Some v \<longrightarrow>
                v \<in> PStr ` set booking_statuses \<and> map_of stored ''status'' = Some v)
         \<and> (map_of input ''status'' = None \<longrightarrow> map_of stored ''status'' = Some (PStr ''pending''))))
   \<and> (\<exists>body db resp s'. post_bookings body db = (Inr resp, Some s')
         \<and> map_of resp ''status'' = Some (PStr ''pending'')
         \<and> map_of (last (collections s' ''booking'')) ''status'' = Some (PStr ''confirmed''))"
proof (rule conjI, goal_cases)
  case 1
  show ?case by (intro allI impI) (rule post_bookings_Inr)
next
  case 2
  show ?case
    by (rule exI, rule exI, rule exI, rule exI, rule conjI, rule post_bookings_confirmed)
       (simp add: collections_inserted booking_data_def)
qed

theorem post_bookings_reports_pending_witness:
  "post_bookings (payload (booking_input ''000000000000000000000000'' @ [(''status'', PStr ''confirmed'')]))
       (Some tutor_store)
     = (Inr [(''id'', PStr ''000000000000000000000001''), (''status'', PStr ''pending'')],
        Some (inserted tutor_store ''booking'' (booking_data ''000000000000000000000000'' ''confirmed'')))
   \<and> map_of [(''id'', PStr ''000000000000000000000001''), (''status'', PStr ''pending'')] ''status''
       = Some (PStr ''pending'')
   \<and> map_of (last (collections (inserted tutor_store ''booking''
          (booking_data ''000000000000000000000000'' ''confirmed'')) ''booking'')) ''status''
       = Some (PStr ''confirmed'')"
proof -
  have h: "post_bookings (payload (booking_input ''000000000000000000000000'' @ [(''status'', PStr ''confirmed'')]))
       (Some tutor_store)
     = (Inr [(''id'', PStr ''000000000000000000000001''), (''status'', PStr ''pending'')],
        Some (inserted tutor_store ''booking'' (booking_data ''000000000000000000000000'' ''confirmed'')))"
    by (rule post_bookings_confirmed)
  from post_bookings_reports_pending [THEN conjunct1, rule_format, OF h]
  have "map_of [(''id'', PStr ''000000000000000000000001''), (''status'', PStr ''pending'')] ''status''
       = Some (PStr ''pending'')"
    by (rule conjunct1)
  with h show ?thesis by (simp add: collections_inserted booking_data_def)
qed

section \<open>Validation failures\<close>

lemma hd_filter_find:
  "filter P xs \<noteq> [] \<Longrightarrow> List.find P xs = Some (hd (filter P xs))"
  by (induction xs) auto

lemma validate_payload_Inl:
  assumes "validate_payload model body = Inl e"
  shows "\<exists>fs. e = RequestValidationError fs \<and> fs \<noteq> []
           \<and> (\<forall>kvs input. body = PDict kvs \<and> map_of kvs ''data'' = Some (PDict input) \<longrightarrow>
                 fs = map field_name (filter (offending input) model))"
  using assms
  by (auto simp: validate_payload_def model_validate_Inl split: pyval.splits option.splits sum.splits)

lemma route_rejects:
  assumes "(model, r) \<in> set resources" "validate_payload model body = Inl e"
  shows "r body db = (Inl e, db)"
  using assms by (auto simp: resources_def post_materials_def post_tutors_def post_bookings_def)

text \<open>
  Claim C9. A body that fails validation for its resource kind is answered with a 422
  error and the store is left as it was; the error's detail is a non-empty list of field
  names, and its first entry is the first field of the model, in declaration order, that
  the body offends.
\<close>

theorem validation_failure_names_first_field:
  assumes "(model, r) \<in> set resources"
    and "validate_payload model body = Inl e"
  shows "r body db = (Inl e, db) \<and> status_code e = 422
       \<and> (\<exists>fs. e = RequestValidationError fs \<and> fs \<noteq> []
            \<and> (\<forall>kvs input. body = PDict kvs \<and> map_of kvs ''data'' = Some (PDict input) \<longrightarrow>
                  (\<exists>f. List.find (offending input) model = Some f \<and> hd fs = field_name f
                        \<and> set fs = field_name ` {g \<in> set model. offending input g})))"
proof -
  from validate_payload_Inl [OF assms(2)] obtain fs where e: "e = RequestValidationError fs"
    and ne: "fs \<noteq> []"
    and fs: "\<And>kvs input. body = PDict kvs \<and> map_of kvs ''data'' = Some (PDict input) \<Longrightarrow>
                 fs = map field_name (filter (offending input) model)"
    by blast
  have "\<exists>f. List.find (offending input) model = Some f \<and> hd fs = field_name f
            \<and> set fs = field_name ` {g \<in> set model. offending input g}"
    if b: "body = PDict kvs \<and> map_of kvs ''data'' = Some (PDict input)" for kvs input
  proof -
    have eq: "fs = map field_name (filter (offending input) model)" by (rule fs [OF b])
    with ne have ne': "filter (offending input) model \<noteq> []" by auto
    have "List.find (offending input) model = Some (hd (filter (offending input) model))"
      by (rule hd_filter_find [OF ne'])
    moreover have "hd fs = field_name (hd (filter (offending input) model))"
      using ne' by (simp add: eq hd_map)
    moreover have "set fs = field_name ` {g \<in> set model. offending input g}"
      by (simp add: eq)
    ultimately show ?thesis by simp
  qed
  then show ?thesis
    using route_rejects [OF assms, of db] e ne by auto
qed


lemma Material_in_resources: "(Material, post_materials) \<in> set resources"
  by (simp add: resources_def)

lemma validate_bad_material:
  "validate_payload Material (payload (tl (material_input ''Law'')))
     = Inl (RequestValidationError [''title'', ''course''])"
  by (simp add: validate_payload_def payload_def model_validate_def Material_def
      material_input_def courses_def material_types_def)

theorem validation_failure_names_first_field_witness:
  "(Material, post_materials) \<in> set resources
   \<and> validate_payload Material (payload (tl (material_input ''Law'')))
       = Inl (RequestValidationError [''title'', ''course''])
   \<and> post_materials (payload (tl (material_input ''Law''))) (Some empty_store)
       = (Inl (RequestValidationError [''title'', ''course'']), Some empty_store)
   \<and> status_code (RequestValidationError [''title'', ''course'']) = 422
   \<and> List.find (offending (tl (material_input ''Law''))) Material
       = Some (Field ''title'' T_str Required [])"
proof -
  have f: "List.find (offending (tl (material_input ''Law''))) Material
       = Some (Field ''title'' T_str Required [])"
    by (simp add: Material_def material_input_def)
  from validation_failure_names_first_field
    [OF Material_in_resources validate_bad_material, of "Some empty_store"] f
  show ?thesis by (simp add: Material_in_resources validate_bad_material)
qed

section \<open>Closed enumerations\<close>

lemma offending_in_errors:
  assumes "f \<in> set model" "offending input f"
  shows "\<exists>errs. model_validate model input = Inl errs \<and> field_name f \<in> set errs"
proof -
  let ?errs = "map field_name (filter (offending input) model)"
  from assms have "field_name f \<in> set ?errs" by auto
  moreover from assms have "?errs \<noteq> []" by (auto simp: filter_empty_conv)
  ultimately show ?thesis by (auto simp: model_validate_Inl)
qed

lemma offending_literal:
  "map_of input k = Some v \<Longrightarrow>
   offending input (Field k (T_Literal ls) d []) \<longleftrightarrow> \<not> in_enumeration ls False v"
  by (cases v) (auto simp: in_enumeration_def)

lemma offending_literal_list:
  "map_of input k = Some v \<Longrightarrow>
   offending input (Field k (T_List (T_Literal ls)) d []) \<longleftrightarrow> \<not> in_enumeration ls True v"
proof (cases v)
  case (PList xs)
  assume "map_of input k = Some v"
  moreover have "list_all (conforms (T_Literal ls)) xs \<longleftrightarrow> list_all (\<lambda>x. x \<in> PStr ` set ls) xs"
    by (rule list_all_cong [OF refl]) (auto split: pyval.splits)
  ultimately show ?thesis using PList by (simp add: in_enumeration_def)
qed (simp_all add: in_enumeration_def)

lemma closed_enumerations_fields:
  assumes "(model, r, k, ls, is_list) \<in> set closed_enumerations"
  shows "(model, r) \<in> set resources
       \<and> (\<exists>d. Field k (if is_list then T_List (T_Literal ls) else T_Literal ls) d [] \<in> set model)"
  using assms
  by (auto simp: closed_enumerations_def resources_def Material_def Tutor_def Booking_def
      courses_def material_types_def session_modes_def booking_statuses_def)


text \<open>
  Claim C2. For each closed enumeration of the Material, Tutor and Booking models (course,
  material type, session mode, booking status): a body whose value for that field lies
  outside the enumeration fails validation, the route answers 422 with that field among
  the reported ones and the store is unchanged; a value inside the enumeration is accepted
  for that field.
\<close>

theorem enumerations_closed:
  assumes "(model, r, k, ls, is_list) \<in> set closed_enumerations"
    and "body = PDict kvs" "map_of kvs ''data'' = Some (PDict input)"
    and "map_of input k = Some v"
  shows "(\<not> in_enumeration ls is_list v \<longrightarrow>
            (\<exists>errs. r body db = (Inl (RequestValidationError errs), db) \<and> k \<in> set errs
                  \<and> status_code (RequestValidationError errs) = 422))
       \<and> (in_enumeration ls is_list v \<longrightarrow>
            (\<exists>f \<in> set model. field_name f = k \<and> \<not> offending input f))"
proof -
  let ?t = "if is_list then T_List (T_Literal ls) else T_Literal ls"
  from closed_enumerations_fields [OF assms(1)] obtain d
    where res: "(model, r) \<in> set resources" and f: "Field k ?t d [] \<in> set model"
    by blast
  have off: "offending input (Field k ?t d []) \<longleftrightarrow> \<not> in_enumeration ls is_list v"
    using offending_literal [OF assms(4)] offending_literal_list [OF assms(4)] by simp
  have "\<exists>errs. r body db = (Inl (RequestValidationError errs), db) \<and> k \<in> set errs
                  \<and> status_code (RequestValidationError errs) = 422"
    if "\<not> in_enumeration ls is_list v"
  proof -
    from that off have "offending input (Field k ?t d [])" by simp
    from offending_in_errors [OF f this] obtain errs
      where "model_validate model input = Inl errs" and k: "k \<in> set errs" by auto
    then have "validate_payload model body = Inl (RequestValidationError errs)"
      by (simp add: validate_payload_def assms(2,3))
    from route_rejects [OF res this, of db] k show ?thesis by simp
  qed
  moreover have "\<exists>f \<in> set model. field_name f = k \<and> \<not> offending input f"
    if "in_enumeration ls is_list v"
    using that off f by (intro bexI [of _ "Field k ?t d []"]) simp_all
  ultimately show ?thesis by blast
qed

lemma course_enumeration: "(Material, post_materials, ''course'', courses, False) \<in> set closed_enumerations"
  by (simp add: closed_enumerations_def courses_def)

theorem enumerations_closed_witness:
  "(Material, post_materials, ''course'', courses, False) \<in> set closed_enumerations
   \<and> \<not> in_enumeration courses False (PStr ''Law'')
   \<and> post_materials (payload (material_input ''Law'')) (Some empty_store)
       = (Inl (RequestValidationError [''course'']), Some empty_store)
   \<and> in_enumeration courses False (PStr ''Nursing'')
   \<and> \<not> offending (material_input ''Nursing'') (Field ''course'' (T_Literal courses) Required [])"
proof -
  have a: "map_of (material_input ''Law'') ''course'' = Some (PStr ''Law'')"
    and b: "map_of (material_input ''Nursing'') ''course'' = Some (PStr ''Nursing'')"
    by (simp_all add: material_input_def)
  have out: "\<not> in_enumeration courses False (PStr ''Law'')"
    and inside: "in_enumeration courses False (PStr ''Nursing'')"
    by (simp_all add: in_enumeration_def courses_def)
  from enumerations_closed [OF course_enumeration refl _ a, of "[(''data'', PDict (material_input ''Law''))]" "Some empty_store"] out
  obtain errs where "post_materials (payload (material_input ''Law'')) (Some empty_store)
       = (Inl (RequestValidationError errs), Some empty_store)"
    by (auto simp: payload_def)
  moreover have "post_materials (payload (material_input ''Law'')) (Some empty_store)
       = (Inl (RequestValidationError [''course'']), Some empty_store)"
    by (simp add: post_materials_def validate_payload_def payload_def model_validate_def
        Material_def material_input_def courses_def material_types_def)
  moreover have "\<not> offending (material_input ''Nursing'') (Field ''course'' (T_Literal courses) Required [])"
    by (simp add: b courses_def)
  ultimately show ?thesis using out inside course_enumeration by simp
qed

section \<open>Materials: defaults and round trip\<close>

lemma fst_field_value: "fst (field_value input f) = field_name f"
  by (cases f) simp

lemma validated_value:
  assumes "model_validate model input = Inr data"
    and "distinct (map field_name model)" "f \<in> set model"
  shows "map_of data (field_name f) = Some (snd (field_value input f))"
proof -
  from assms(1) have data: "data = map (field_value input) model"
    by (simp add: model_validate_Inr)
  have "distinct (map fst data)"
    using assms(2) by (simp add: data comp_def fst_field_value)
  moreover have "field_value input f = (field_name f, snd (field_value input f))"
    by (cases f) simp
  then have "(field_name f, snd (field_value input f)) \<in> set data"
    using assms(3) by (simp add: data image_iff) (metis)
  ultimately show ?thesis by (simp add: map_of_eq_Some_iff)
qed

lemma validated_given:
  assumes "model_validate model input = Inr data"
    and "distinct (map field_name model)" "f \<in> set model"
    and "map_of input (field_name f) = Some v"
  shows "map_of data (field_name f) = Some v"
  using validated_value [OF assms(1-3)] assms(4) by (cases f) simp

lemma validated_default:
  assumes "model_validate model input = Inr data"
    and "distinct (map field_name model)" "Field k t (Default dv) bs \<in> set model"
    and "map_of input k = None"
  shows "map_of data k = Some dv"
  using validated_value [OF assms(1-3)] assms(4) by simp

lemma Material_distinct: "distinct (map field_name Material)"
  by (simp add: Material_def)

lemma post_materials_valid:
  "validate_payload Material body = Inr data \<Longrightarrow> post_materials body db = create_material data db"
  by (simp add: post_materials_def)

lemma create_material_reachable:
  "reachable s \<Longrightarrow>
   create_material data (Some s) =
     (Inr [(''id'', PStr (str_ObjectId (fresh_ObjectId (next_oid s))))],
      Some (inserted s ''material'' data))"
  by (simp add: create_material_def create_document_reachable)

text \<open>
  Claim C5. When a material body passes validation, the validated document is what is
  passed to insertion, and each of \<open>price\<close>, \<open>rating\<close>, \<open>downloads\<close>, \<open>university\<close> that
  the body omits holds its default in it: 0, 4.8, 0 and the name of the university.
\<close>

theorem material_defaults:
  assumes "validate_payload Material body = Inr data"
    and "body = PDict kvs" "map_of kvs ''data'' = Some (PDict input)"
  shows "(map_of input ''price'' = None \<longrightarrow> map_of data ''price'' = Some (PNum 0))
       \<and> (map_of input ''rating'' = None \<longrightarrow> map_of data ''rating'' = Some (PNum 4.8))
       \<and> (map_of input ''downloads'' = None \<longrightarrow> map_of data ''downloads'' = Some (PNum 0))
       \<and> (map_of input ''university'' = None \<longrightarrow>
            map_of data ''university'' = Some (PStr ''Pamantasan ng Lungsod ng Valenzuela''))
       \<and> post_materials body db = create_material data db
       \<and> (\<forall>s. db = Some s \<and> reachable s \<longrightarrow>
            post_materials body db =
              (Inr [(''id'', PStr (str_ObjectId (fresh_ObjectId (next_oid s))))],
               Some (inserted s ''material'' data)))"
proof -
  from assms have mv: "model_validate Material input = Inr data"
    by (auto simp: validate_payload_Inr)
  note d = validated_default [OF mv Material_distinct]
  have "map_of input ''price'' = None \<longrightarrow> map_of data ''price'' = Some (PNum 0)"
    by (rule impI, rule d [where t = T_float and bs = "[Ge 0]"]) (simp_all add: Material_def)
  moreover have "map_of input ''rating'' = None \<longrightarrow> map_of data ''rating'' = Some (PNum 4.8)"
    by (rule impI, rule d [where t = "T_Optional T_float" and bs = "[Ge 0, Le 5]"])
       (simp_all add: Material_def)
  moreover have "map_of input ''downloads'' = None \<longrightarrow> map_of data ''downloads'' = Some (PNum 0)"
    by (rule impI, rule d [where t = "T_Optional T_int" and bs = "[Ge 0]"])
       (simp_all add: Material_def)
  moreover have "map_of input ''university'' = None \<longrightarrow>
            map_of data ''university'' = Some (PStr ''Pamantasan ng Lungsod ng Valenzuela'')"
    by (rule impI, rule d [where t = T_str and bs = "[]"]) (simp_all add: Material_def)
  moreover have "post_materials body db = create_material data db"
    by (rule post_materials_valid [OF assms(1)])
  moreover have "\<forall>s. db = Some s \<and> reachable s \<longrightarrow>
            post_materials body db =
              (Inr [(''id'', PStr (str_ObjectId (fresh_ObjectId (next_oid s))))],
               Some (inserted s ''material'' data))"
    by (auto simp: post_materials_valid [OF assms(1)] create_material_reachable)
  ultimately show ?thesis by (intro conjI)
qed

lemma validate_material_input:
  "c \<in> set courses \<Longrightarrow>
   validate_payload Material (payload (material_input c)) = Inr (material_data c)"
  by (simp add: validate_payload_def payload_def model_validate_def Material_def
      material_input_def material_data_def material_types_def)

lemma Nursing_course: "''Nursing'' \<in> set courses"
  by (simp add: courses_def)

theorem material_defaults_witness:
  "validate_payload Material (payload (material_input ''Nursing'')) = Inr (material_data ''Nursing'')
   \<and> map_of (material_input ''Nursing'') ''price'' = None
   \<and> map_of (material_data ''Nursing'') ''price'' = Some (PNum 0)
   \<and> map_of (material_data ''Nursing'') ''rating'' = Some (PNum 4.8)
   \<and> map_of (material_data ''Nursing'') ''downloads'' = Some (PNum 0)
   \<and> map_of (material_data ''Nursing'') ''university''
       = Some (PStr ''Pamantasan ng Lungsod ng Valenzuela'')
   \<and> post_materials (payload (material_input ''Nursing'')) (Some empty_store)
       = (Inr [(''id'', PStr ''000000000000000000000000'')],
          Some (inserted empty_store ''material'' (material_data ''Nursing'')))"
proof -
  have h: "validate_payload Material (payload (material_input ''Nursing'')) = Inr (material_data ''Nursing'')"
    by (rule validate_material_input [OF Nursing_course])
  have n: "map_of (material_input ''Nursing'') ''price'' = None"
    "map_of (material_input ''Nursing'') ''rating'' = None"
    "map_of (material_input ''Nursing'') ''downloads'' = None"
    "map_of (material_input ''Nursing'') ''university'' = None"
    by (simp_all add: material_input_def)
  have e: "reachable empty_store" "next_oid empty_store = 0"
    by (simp_all add: empty_store_def)
  from material_defaults [OF h, of "[(''data'', PDict (material_input ''Nursing''))]"
      "material_input ''Nursing''" "Some empty_store"]
  show ?thesis
    by (simp add: payload_def h [unfolded payload_def] n e fresh_ObjectId_0 create_material_reachable)
qed

lemma length_hex_of: "length (hex_of k n) = k"
  by (induction k arbitrary: n) simp_all

lemma str_fresh_ObjectId_nonempty: "str_ObjectId (fresh_ObjectId n) \<noteq> []"
proof -
  have "length (str_ObjectId (fresh_ObjectId n)) = 24"
    by (simp add: fresh_ObjectId_def length_hex_of)
  then show ?thesis by auto
qed

lemma inserted_simps:
  "reachable (inserted s c d) = reachable s"
  "next_oid (inserted s c d) = Suc (next_oid s)"
  "c' \<noteq> c \<Longrightarrow> collections (inserted s c d) c' = collections s c'"
  by (simp_all add: inserted_def)

lemma Material_course:
  assumes "model_validate Material input = Inr data"
  shows "\<exists>c. map_of input ''course'' = Some (PStr c) \<and> c \<noteq> []
           \<and> map_of data ''course'' = Some (PStr c)"
proof -
  from assms have ok: "\<not> offending input (Field ''course'' (T_Literal courses) Required [])"
    and data: "data = map (field_value input) Material"
    by (simp_all add: model_validate_Inr Material_def)
  from ok obtain c where c: "map_of input ''course'' = Some (PStr c)" "c \<in> set courses"
    by (auto split: option.splits pyval.splits)
  from c(2) have "c \<noteq> []" by (auto simp: courses_def)
  with c(1) show ?thesis by (simp add: data Material_def)
qed

lemma Material_field_names:
  "f \<in> set Material \<Longrightarrow> field_name f \<noteq> ''_id'' \<and> field_name f \<noteq> ''id''"
  by (auto simp: Material_def)

lemma list_materials_by_course:
  assumes "reachable s" "c \<noteq> []"
  shows "list_materials (Some c) None None (Some s)
     = Inr (items_response (map serialize_doc
         (filter (matches [(''course'', PStr c)]) (collections s ''material''))))"
  using assms by (simp add: list_materials_def get_documents_def find_def)


text \<open>
  Claim C6. Posting a valid material body to a reachable store and then listing the
  materials of the same course yields an \<open>items\<close> list with an item that has, for every
  model field the body supplied, the supplied value, and under \<open>id\<close> the non-empty
  identifier that the post returned.
\<close>

theorem material_round_trip:
  assumes "validate_payload Material body = Inr data"
    and "body = PDict kvs" "map_of kvs ''data'' = Some (PDict input)"
    and "reachable s"
  shows "\<exists>c i s' items item.
           map_of input ''course'' = Some (PStr c)
         \<and> post_materials body (Some s) = (Inr [(''id'', PStr i)], Some s')
         \<and> list_materials (Some c) None None (Some s') = Inr (items_response items)
         \<and> item \<in> set items
         \<and> (\<forall>f \<in> set Material. \<forall>v. map_of input (field_name f) = Some v \<longrightarrow>
                map_of item (field_name f) = Some v)
         \<and> map_of item ''id'' = Some (PStr i) \<and> i \<noteq> []"
proof -
  from assms have mv: "model_validate Material input = Inr data"
    by (auto simp: validate_payload_Inr)
  from Material_course [OF mv] obtain c where c: "map_of input ''course'' = Some (PStr c)"
    "c \<noteq> []" "map_of data ''course'' = Some (PStr c)"
    by blast
  let ?oid = "fresh_ObjectId (next_oid s)"
  let ?i = "str_ObjectId ?oid"
  let ?s' = "inserted s ''material'' data"
  let ?new = "(''_id'', PObjectId ?oid) # data"
  let ?items = "map serialize_doc (filter (matches [(''course'', PStr c)]) (collections ?s' ''material''))"
  let ?item = "serialize_doc ?new"
  have post: "post_materials body (Some s) = (Inr [(''id'', PStr ?i)], Some ?s')"
    using assms(4) by (simp add: post_materials_valid [OF assms(1)] create_material_reachable)
  have lst: "list_materials (Some c) None None (Some ?s') = Inr (items_response ?items)"
    using assms(4) c(2) by (simp add: list_materials_by_course inserted_simps)
  have "matches [(''course'', PStr c)] ?new"
    using c(3) by (simp add: matches_def)
  then have mem: "?item \<in> set ?items"
    by (simp add: collections_inserted)
  have id: "map_of ?new ''_id'' = Some (PObjectId ?oid)" by simp
  have fields: "\<forall>f \<in> set Material. \<forall>v. map_of input (field_name f) = Some v \<longrightarrow>
                map_of ?item (field_name f) = Some v"
  proof (intro ballI allI impI)
    fix f v assume f: "f \<in> set Material" and v: "map_of input (field_name f) = Some v"
    from Material_field_names [OF f]
    have "map_of ?item (field_name f) = map_of ?new (field_name f)"
      by (simp add: serialize_doc_other_key)
    also have "\<dots> = map_of data (field_name f)"
      using Material_field_names [OF f] by simp
    also have "\<dots> = Some v"
      by (rule validated_given [OF mv Material_distinct f v])
    finally show "map_of ?item (field_name f) = Some v" .
  qed
  have idv: "map_of ?item ''id'' = Some (PStr ?i)"
    by (simp add: serialize_doc_oid [OF id] update_conv')
  show ?thesis
    by (rule exI [of _ c], rule exI [of _ ?i], rule exI [of _ ?s'], rule exI [of _ ?items],
        rule exI [of _ ?item])
       (intro conjI c(1) post lst mem fields idv str_fresh_ObjectId_nonempty)
qed


lemma list_after_post_example:
  "list_materials (Some ''Nursing'') None None
       (Some (inserted empty_store ''material'' (material_data ''Nursing'')))
     = Inr (items_response
         [material_data ''Nursing'' @ [(''id'', PStr ''000000000000000000000000'')]])"
  by (simp add: list_materials_by_course inserted_simps collections_inserted empty_store_def
      matches_def serialize_doc_def material_data_def fresh_ObjectId_0)

theorem material_round_trip_witness:
  "validate_payload Material (payload (material_input ''Nursing'')) = Inr (material_data ''Nursing'')
   \<and> reachable empty_store
   \<and> post_materials (payload (material_input ''Nursing'')) (Some empty_store)
       = (Inr [(''id'', PStr ''000000000000000000000000'')],
          Some (inserted empty_store ''material'' (material_data ''Nursing'')))
   \<and> list_materials (Some ''Nursing'') None None
         (Some (inserted empty_store ''material'' (material_data ''Nursing'')))
       = Inr (items_response
           [material_data ''Nursing'' @ [(''id'', PStr ''000000000000000000000000'')]])
   \<and> map_of (material_data ''Nursing'' @ [(''id'', PStr ''000000000000000000000000'')]) ''title''
       = map_of (material_input ''Nursing'') ''title''"
proof -
  have h: "validate_payload Material (payload (material_input ''Nursing'')) = Inr (material_data ''Nursing'')"
    by (rule validate_material_input [OF Nursing_course])
  have e: "reachable empty_store" "next_oid empty_store = 0"
    by (simp_all add: empty_store_def)
  have p: "post_materials (payload (material_input ''Nursing'')) (Some empty_store)
       = (Inr [(''id'', PStr ''000000000000000000000000'')],
          Some (inserted empty_store ''material'' (material_data ''Nursing'')))"
    by (simp add: post_materials_valid [OF h] create_material_reachable e fresh_ObjectId_0)
  from material_round_trip [OF h [unfolded payload_def] refl _ e(1), of "material_input ''Nursing''"]
  obtain c i s' items item where "map_of (material_input ''Nursing'') ''course'' = Some (PStr c)"
    and "post_materials (PDict [(''data'', PDict (material_input ''Nursing''))]) (Some empty_store)
           = (Inr [(''id'', PStr i)], Some s')"
    and "list_materials (Some c) None None (Some s') = Inr (items_response items)"
    and "item \<in> set items"
    and "\<forall>f \<in> set Material. \<forall>v. map_of (material_input ''Nursing'') (field_name f) = Some v \<longrightarrow>
                map_of item (field_name f) = Some v"
    by auto
  then have "c = ''Nursing''" "s' = inserted empty_store ''material'' (material_data ''Nursing'')"
    "i = ''000000000000000000000000''"
    using p by (simp_all add: material_input_def payload_def)
  then show ?thesis
    using h e(1) p list_after_post_example
    by (simp add: material_input_def material_data_def)
qed

section \<open>Listing materials\<close>

lemma filter_exn_map:
  "(\<And>x. x \<in> set xs \<Longrightarrow> p (g x) = Inr (P x)) \<Longrightarrow>
   filter_exn p (map g xs) = Inr (map g (filter P xs))"
  by (induction xs) simp_all

lemma material_hit_serialize: "material_hit ql (serialize_doc d) = material_hit ql d"
proof -
  have a: "map_of (serialize_doc d) ''title'' = map_of d ''title''"
    and b: "map_of (serialize_doc d) ''description'' = map_of d ''description''"
    by (simp_all add: serialize_doc_other_key)
  show ?thesis unfolding material_hit_def a b by (rule refl)
qed

lemma material_hit_texts:
  assumes "material_texts d"
  shows "material_hit (lower q) d = Inr (material_matches q d)"
proof -
  from assms have t: "str_lower (case map_of d ''title'' of None \<Rightarrow> PStr [] | Some v \<Rightarrow> v)
      = Inr (lower (text_of d ''title''))"
    by (auto simp: material_texts_def text_of_def lower_def split: option.splits pyval.splits)
  from assms have "str_lower (case map_of d ''description'' of
                                  None \<Rightarrow> PStr []
                                | Some v \<Rightarrow> if truthy v then v else PStr [])
      = Inr (lower (text_of d ''description''))"
    by (auto simp: material_texts_def text_of_def lower_def split: option.splits pyval.splits)
  with t show ?thesis by (simp add: material_hit_def material_matches_def)
qed

lemma matches_append: "matches (xs @ ys) d \<longleftrightarrow> matches xs d \<and> matches ys d"
  by (simp add: matches_def)

lemma matches_param:
  "matches (case given p of None \<Rightarrow> [] | Some x \<Rightarrow> [(k, PStr x)]) d \<longleftrightarrow> equals_param k p d"
  by (simp add: matches_def equals_param_def split: option.splits)

lemma material_matches_empty: "material_matches [] d"
  by (simp add: material_matches_def lower_def)

text \<open>
  Claim C3. Listing materials with a parameter \<open>q\<close>, on a reachable store whose materials
  have textual titles and descriptions: of the documents that pass the equality filters on
  \<open>course\<close> and \<open>subject\<close>, exactly those are returned, serialized and in the store's order,
  for which the lower-cased \<open>q\<close> occurs in the lower-cased title or in the lower-cased
  description (taken as empty when absent or \<open>None\<close>).
\<close>

theorem list_materials_search:
  assumes "reachable s"
    and "\<forall>d \<in> set (collections s ''material''). material_texts d"
  shows "list_materials course subject (Some q) (Some s)
     = Inr (items_response (map serialize_doc
         (filter (material_matches q)
           (filter (\<lambda>d. equals_param ''course'' course d \<and> equals_param ''subject'' subject d)
             (collections s ''material'')))))"
proof -
  let ?flt = "(case given course of None \<Rightarrow> [] | Some c \<Rightarrow> [(''course'', PStr c)])
            @ (case given subject of None \<Rightarrow> [] | Some x \<Rightarrow> [(''subject'', PStr x)])"
  let ?docs = "filter (\<lambda>d. equals_param ''course'' course d \<and> equals_param ''subject'' subject d)
             (collections s ''material'')"
  have "matches ?flt = (\<lambda>d. equals_param ''course'' course d \<and> equals_param ''subject'' subject d)"
    by (rule ext) (simp add: matches_append matches_param)
  then have docs: "get_documents ''material'' ?flt (Some s) = Inr ?docs"
    using assms(1) by (simp add: get_documents_def find_def)
  have hit: "material_hit (lower q) (serialize_doc d) = Inr (material_matches q d)"
    if "d \<in> set ?docs" for d
    using that assms(2) by (simp add: material_hit_serialize material_hit_texts)
  show ?thesis
  proof (cases "q = []")
    case True
    then show ?thesis
      using docs by (simp add: list_materials_def material_matches_empty)
  next
    case False
    then show ?thesis
      using docs filter_exn_map [of ?docs "material_hit (lower q)" serialize_doc "material_matches q", OF hit]
      by (simp add: list_materials_def)
  qed
qed


lemma fresh_ObjectId_2: "fresh_ObjectId 2 = ObjectId ''000000000000000000000002''"
  by code_simp

lemma fresh_ObjectId_3: "fresh_ObjectId 3 = ObjectId ''000000000000000000000003''"
  by code_simp

lemma seeded_materials:
  "collections seeded_store ''material''
     = [(''_id'', PObjectId (ObjectId ''000000000000000000000000'')) # material_A,
        (''_id'', PObjectId (ObjectId ''000000000000000000000001'')) # material_B]"
  by (simp add: seeded_store_def demo_materials_def fresh_ObjectId_0 fresh_ObjectId_1)

lemma seeded_tutors:
  "collections seeded_store ''tutor''
     = [(''_id'', PObjectId (ObjectId ''000000000000000000000002'')) # tutor_A,
        (''_id'', PObjectId (ObjectId ''000000000000000000000003'')) # tutor_B]"
  by (simp add: seeded_store_def demo_tutors_def fresh_ObjectId_2 fresh_ObjectId_3)

lemma seeded_reachable: "reachable seeded_store"
  by (simp add: seeded_store_def)

lemma demo_material_texts: "material_texts ((''_id'', i) # material_A)"
  "material_texts ((''_id'', i) # material_B)"
  by (simp_all add: material_A_def material_B_def material_texts_def)

lemma seeded_material_texts: "\<forall>d \<in> set (collections seeded_store ''material''). material_texts d"
  by (simp add: seeded_materials demo_material_texts)

lemma validated_material_texts:
  assumes "model_validate Material input = Inr data"
  shows "material_texts ((''_id'', i) # data)"
proof -
  from assms have t: "\<not> offending input (Field ''title'' T_str Required [])"
    and d: "\<not> offending input (Field ''description'' (T_Optional T_str) (Default PNone) [])"
    and data: "data = map (field_value input) Material"
    by (simp_all add: model_validate_Inr Material_def)
  from t obtain x where "map_of input ''title'' = Some (PStr x)"
    by (auto split: option.splits pyval.splits)
  moreover from d have "map_of input ''description'' = None
      \<or> map_of input ''description'' = Some PNone
      \<or> (\<exists>y. map_of input ''description'' = Some (PStr y))"
    by (auto split: option.splits pyval.splits)
  ultimately show ?thesis
    by (auto simp: data Material_def material_texts_def)
qed

lemma circuit_matches:
  "\<not> material_matches ''Circuit'' ((''_id'', i) # material_A)"
  "material_matches ''Circuit'' ((''_id'', i) # material_B)"
  by (simp_all add: material_matches_def text_of_def material_A_def material_B_def lower_def
      lower_char_def sublist_code)

lemma serialize_material_B:
  "serialize_doc ((''_id'', PObjectId (ObjectId ''000000000000000000000001'')) # material_B)
      = material_B @ [(''id'', PStr ''000000000000000000000001'')]"
  by (simp add: serialize_doc_def material_B_def)

theorem list_materials_search_witness:
  "reachable seeded_store
   \<and> list_all material_texts (collections seeded_store ''material'')
   \<and> list_materials None None (Some ''Circuit'') (Some seeded_store)
       = Inr (items_response [material_B @ [(''id'', PStr ''000000000000000000000001'')]])"
  using list_materials_search [OF seeded_reachable seeded_material_texts, of None None "''Circuit''"]
  by (simp add: seeded_reachable seeded_materials circuit_matches demo_material_texts
      equals_param_def serialize_material_B)

section \<open>Listing tutors\<close>

lemma any_exn_strings:
  "list_all (\<lambda>x. case x of PStr t \<Rightarrow> True | _ \<Rightarrow> False) xs \<Longrightarrow>
   any_exn (subject_hit sl) xs
     = Inr (list_ex (\<lambda>x. case x of PStr t \<Rightarrow> sublist sl (lower t) | _ \<Rightarrow> False) xs)"
proof (induction xs)
  case Nil
  show ?case by simp
next
  case (Cons x xs)
  then show ?case by (cases x) (simp_all add: subject_hit_def)
qed

lemma tutor_hit_serialize: "tutor_hit sl (serialize_doc d) = tutor_hit sl d"
proof -
  have a: "map_of (serialize_doc d) ''subjects'' = map_of d ''subjects''"
    by (simp add: serialize_doc_other_key)
  show ?thesis unfolding tutor_hit_def a by (rule refl)
qed

lemma tutor_hit_subjects:
  assumes "tutor_subjects d"
  shows "tutor_hit (lower subject) d = Inr (tutor_matches subject d)"
proof (cases "map_of d ''subjects''")
  case None
  then show ?thesis by (simp add: tutor_hit_def tutor_matches_def subjects_of_def)
next
  case (Some v)
  with assms obtain xs where v: "v = PList xs"
    and xs: "list_all (\<lambda>x. case x of PStr t \<Rightarrow> True | _ \<Rightarrow> False) xs"
    by (cases v) (simp_all add: tutor_subjects_def)
  from Some v show ?thesis
    by (simp add: tutor_hit_def tutor_matches_def subjects_of_def any_exn_strings [OF xs])
qed

lemma list_tutors_docs:
  "reachable s \<Longrightarrow>
   get_documents ''tutor'' (case given course of None \<Rightarrow> [] | Some c \<Rightarrow> [(''course'', PStr c)]) (Some s)
     = Inr (filter (equals_param ''course'' course) (collections s ''tutor''))"
proof -
  assume "reachable s"
  moreover have "matches (case given course of None \<Rightarrow> [] | Some c \<Rightarrow> [(''course'', PStr c)])
      = equals_param ''course'' course"
    by (rule ext) (simp add: matches_param)
  ultimately show ?thesis by (simp add: get_documents_def find_def)
qed

text \<open>
  Claim C4, as amended. Listing tutors with a non-empty parameter \<open>subject\<close>, on a
  reachable store whose tutors have lists of strings as subjects: of the documents that
  pass the equality filter on \<open>course\<close>, exactly those are returned, serialized and in the
  store's order, for which the lower-cased \<open>subject\<close> occurs in the lower-cased form of
  some element of the document's \<open>subjects\<close> list.
\<close>

theorem list_tutors_search:
  assumes "reachable s"
    and "\<forall>d \<in> set (collections s ''tutor''). tutor_subjects d"
    and "subject \<noteq> []"
  shows "list_tutors course (Some subject) (Some s)
     = Inr (items_response (map serialize_doc
         (filter (tutor_matches subject)
           (filter (equals_param ''course'' course) (collections s ''tutor'')))))"
proof -
  let ?docs = "filter (equals_param ''course'' course) (collections s ''tutor'')"
  have hit: "tutor_hit (lower subject) (serialize_doc d) = Inr (tutor_matches subject d)"
    if "d \<in> set ?docs" for d
    using that assms(2) by (simp add: tutor_hit_serialize tutor_hit_subjects)
  show ?thesis
    using assms(3) list_tutors_docs [OF assms(1), of course]
      filter_exn_map [of ?docs "tutor_hit (lower subject)" serialize_doc "tutor_matches subject", OF hit]
    by (simp add: list_tutors_def)
qed


lemma demo_tutor_subjects: "tutor_subjects ((''_id'', i) # tutor_A)" "tutor_subjects ((''_id'', i) # tutor_B)"
  by (simp_all add: tutor_A_def tutor_B_def tutor_subjects_def)

lemma seeded_tutor_subjects: "\<forall>d \<in> set (collections seeded_store ''tutor''). tutor_subjects d"
  by (simp add: seeded_tutors demo_tutor_subjects)

lemma conforms_T_str_case: "conforms T_str = (\<lambda>x. case x of PStr t \<Rightarrow> True | _ \<Rightarrow> False)"
  by (rule ext) simp

lemma validated_tutor_subjects:
  assumes "model_validate Tutor input = Inr data"
  shows "tutor_subjects ((''_id'', i) # data)"
proof -
  from assms have ok: "\<not> offending input (Field ''subjects'' (T_List T_str) (Default (PList [])) [])"
    and data: "data = map (field_value input) Tutor"
    by (simp_all add: model_validate_Inr Tutor_def)
  show ?thesis
  proof (cases "map_of input ''subjects''")
    case None
    then show ?thesis by (simp add: data Tutor_def tutor_subjects_def)
  next
    case (Some v)
    with ok have "conforms (T_List T_str) v" by simp
    then obtain xs where "v = PList xs" "list_all (conforms T_str) xs"
      by (cases v) simp_all
    with Some show ?thesis
      by (simp add: data Tutor_def tutor_subjects_def conforms_T_str_case)
  qed
qed

lemma data_matches:
  "tutor_matches ''data'' ((''_id'', i) # tutor_A)"
  "\<not> tutor_matches ''data'' ((''_id'', i) # tutor_B)"
  by (simp_all add: tutor_matches_def subjects_of_def tutor_A_def tutor_B_def lower_def
      lower_char_def sublist_code)

lemma serialize_tutor_A:
  "serialize_doc ((''_id'', PObjectId (ObjectId ''000000000000000000000002'')) # tutor_A)
      = tutor_A @ [(''id'', PStr ''000000000000000000000002'')]"
  by (simp add: serialize_doc_def tutor_A_def)

theorem list_tutors_search_witness:
  "reachable seeded_store
   \<and> list_all tutor_subjects (collections seeded_store ''tutor'')
   \<and> ''data'' \<noteq> []
   \<and> list_tutors None (Some ''data'') (Some seeded_store)
       = Inr (items_response [tutor_A @ [(''id'', PStr ''000000000000000000000002'')]])"
  using list_tutors_search [OF seeded_reachable seeded_tutor_subjects, of "''data''" None]
  by (simp add: seeded_reachable seeded_tutors data_matches demo_tutor_subjects
      equals_param_def serialize_tutor_A)

lemma validate_tutor_input: "validate_payload Tutor (payload tutor_input) = Inr tutor_data"
  by (simp add: validate_payload_def payload_def model_validate_def Tutor_def
      tutor_input_def tutor_data_def courses_def)

lemma post_tutor_input:
  "post_tutors (payload tutor_input) (Some empty_store)
     = (Inr [(''id'', PStr ''000000000000000000000000'')], Some new_tutor_store)"
  by (simp add: post_tutors_def validate_tutor_input create_tutor_def create_document_reachable
      empty_store_def new_tutor_store_def fresh_ObjectId_0)

lemma new_tutor_store_tutors:
  "collections new_tutor_store ''tutor''
     = [(''_id'', PObjectId (ObjectId ''000000000000000000000000'')) # tutor_data]"
  by (simp add: new_tutor_store_def collections_inserted empty_store_def fresh_ObjectId_0)

lemma new_tutor_store_reachable: "reachable new_tutor_store"
  by (simp add: new_tutor_store_def inserted_simps empty_store_def)

text \<open>
  Claim C4 as stated fails for a parameter that is present but empty
  (\<^verbatim>\<open>GET /api/tutors?subject=\<close>): the test \<^verbatim>\<open>if subject:\<close> skips the search, so a tutor posted
  without subjects is returned although no element of its (empty) list contains the text.
\<close>

theorem list_tutors_empty_subject_counterexample:
  "post_tutors (payload tutor_input) (Some empty_store)
     = (Inr [(''id'', PStr ''000000000000000000000000'')], Some new_tutor_store)
   \<and> list_tutors None (Some []) (Some new_tutor_store)
     = Inr (items_response [tutor_data @ [(''id'', PStr ''000000000000000000000000'')]])
   \<and> filter (tutor_matches []) (collections new_tutor_store ''tutor'') = []
   \<and> list_tutors None (Some []) (Some new_tutor_store)
     \<noteq> Inr (items_response (map serialize_doc
           (filter (tutor_matches [])
             (filter (equals_param ''course'' None) (collections new_tutor_store ''tutor'')))))"
proof -
  have m: "\<not> tutor_matches [] ((''_id'', PObjectId (ObjectId ''000000000000000000000000'')) # tutor_data)"
    by (simp add: tutor_matches_def subjects_of_def tutor_data_def)
  have l: "list_tutors None (Some []) (Some new_tutor_store)
     = Inr (items_response [tutor_data @ [(''id'', PStr ''000000000000000000000000'')]])"
    by (simp add: list_tutors_def get_documents_def find_def new_tutor_store_reachable
        new_tutor_store_tutors matches_def serialize_doc_def tutor_data_def)
  show ?thesis
    by (simp add: post_tutor_input l new_tutor_store_tutors m equals_param_def items_response_def)
qed

section \<open>Seeding at startup\<close>

lemma count_documents_reachable:
  "reachable s \<Longrightarrow> count_documents s c = Inr (length (collections s c))"
  by (simp add: count_documents_def matches_def)

lemma insert_each_reachable:
  "reachable s \<Longrightarrow>
   insert_each s c ds =
     (Inr (), s\<lparr>collections := (collections s)(c := collections s c @ with_ids (next_oid s) ds),
                next_oid := next_oid s + length ds\<rparr>)"
proof (induction ds arbitrary: s)
  case Nil
  then show ?case by simp
next
  case (Cons d ds)
  have r: "reachable (inserted s c d)" using Cons.prems by (simp add: inserted_simps)
  show ?case
    using Cons.prems
    by (simp add: insert_one_reachable Cons.IH [OF r]) (simp add: inserted_def cong: if_cong)
qed

lemma seed_collection:
  assumes "reachable s"
  shows "(case count_documents s c of
            Inl e \<Rightarrow> (Inl e, Some s)
          | Inr n \<Rightarrow>
              (case (if n = 0 then insert_each s c ds else (Inr (), s)) of
                 (Inl e, s1) \<Rightarrow> (Inl e, Some s1)
               | (Inr u, s1) \<Rightarrow> k s1))
         = k (seeded s c ds)"
proof (cases "collections s c = []")
  case True
  then show ?thesis
    using assms by (simp add: count_documents_reachable insert_each_reachable seeded_def)
next
  case False
  then show ?thesis
    using assms by (simp add: count_documents_reachable seeded_def)
qed

lemma reachable_seeded: "reachable (seeded s c ds) = reachable s"
  by (simp add: seeded_def)

lemma seed_demo_try_reachable:
  assumes "reachable s"
  shows "seed_demo_try (Some s)
     = (Inr (), Some (seeded (seeded s ''material'' demo_materials) ''tutor'' demo_tutors))"
proof -
  let ?s1 = "seeded s ''material'' demo_materials"
  have r1: "reachable ?s1" using assms by (simp add: reachable_seeded)
  have "seed_demo_try (Some s)
      = (case count_documents ?s1 ''tutor'' of
           Inl e \<Rightarrow> (Inl e, Some ?s1)
         | Inr k \<Rightarrow>
             (case (if k = 0 then insert_each ?s1 ''tutor'' demo_tutors else (Inr (), ?s1)) of
                (Inl e, s2) \<Rightarrow> (Inl e, Some s2)
              | (Inr u', s2) \<Rightarrow> (Inr (), Some s2)))"
    unfolding seed_demo_try_def option.case
    by (rule seed_collection [OF assms])
  also have "\<dots> = (Inr (), Some (seeded ?s1 ''tutor'' demo_tutors))"
    by (rule seed_collection [OF r1])
  finally show ?thesis .
qed

lemma seed_demo_try_unreachable:
  "\<not> reachable s \<Longrightarrow> seed_demo_try (Some s) = (Inl StoreError, Some s)"
  by (simp add: seed_demo_try_def count_documents_def)

lemma seed_demo_returns: "fst (seed_demo db) = Inr ()"
  by (simp add: seed_demo_def split: prod.splits sum.splits)

lemma collections_seeded:
  "collections (seeded s c ds) c' =
     (if c' = c \<and> collections s c = [] then with_ids (next_oid s) ds else collections s c')"
  by (simp add: seeded_def)

lemma next_oid_seeded:
  "next_oid (seeded s c ds) = next_oid s + (if collections s c = [] then length ds else 0)"
  by (simp add: seeded_def)


lemma seed_demo_reachable:
  "reachable s \<Longrightarrow>
   seed_demo (Some s)
     = (Inr (), Some (seeded (seeded s ''material'' demo_materials) ''tutor'' demo_tutors))"
  by (simp add: seed_demo_def seed_demo_try_reachable)

lemma seed_demo_unreachable: "\<not> reachable s \<Longrightarrow> seed_demo (Some s) = (Inr (), Some s)"
  by (simp add: seed_demo_def seed_demo_try_unreachable)

lemma seed_demo_None: "seed_demo None = (Inr (), None)"
  by (simp add: seed_demo_def seed_demo_try_def)

text \<open>
  Claim C8. At startup against a reachable store, an empty material collection receives
  exactly the two demo materials (A: Data Structures Reviewer, price 50, rating 4.9,
  downloads 120; B: Circuit Analysis Handout, price 0, rating 4.7, downloads 88) and an
  empty tutor collection exactly the two demo tutors (Maria Santos, Mark Reyes); a
  collection that has documents, and every other collection, is left as it is. Whatever the
  handle, the startup hook returns normally: without a handle nothing happens, and when
  the store does not answer the error raised inside the hook is swallowed and nothing
  changes.
\<close>

theorem seed_demo_seeds_empty_collections:
  "(reachable s \<longrightarrow>
      (\<exists>s'. seed_demo (Some s) = (Inr (), Some s')
         \<and> collections s' ''material''
             = (if collections s ''material'' = []
                then with_ids (next_oid s) [material_A, material_B]
                else collections s ''material'')
         \<and> collections s' ''tutor''
             = (if collections s ''tutor'' = []
                then with_ids (next_oid s + (if collections s ''material'' = [] then 2 else 0))
                       [tutor_A, tutor_B]
                else collections s ''tutor'')
         \<and> (\<forall>c. c \<noteq> ''material'' \<and> c \<noteq> ''tutor'' \<longrightarrow> collections s' c = collections s c)))
   \<and> fst (seed_demo db) = Inr ()
   \<and> seed_demo None = (Inr (), None)
   \<and> (\<not> reachable s \<longrightarrow>
        seed_demo_try (Some s) = (Inl StoreError, Some s) \<and> seed_demo (Some s) = (Inr (), Some s))
   \<and> map_of material_A ''title'' = Some (PStr ''Data Structures Reviewer'')
   \<and> map_of material_A ''price'' = Some (PNum 50)
   \<and> map_of material_A ''rating'' = Some (PNum 4.9)
   \<and> map_of material_A ''downloads'' = Some (PNum 120)
   \<and> map_of material_B ''title'' = Some (PStr ''Circuit Analysis Handout'')
   \<and> map_of material_B ''price'' = Some (PNum 0)
   \<and> map_of material_B ''rating'' = Some (PNum 4.7)
   \<and> map_of material_B ''downloads'' = Some (PNum 88)
   \<and> map_of tutor_A ''name'' = Some (PStr ''Maria Santos'')
   \<and> map_of tutor_B ''name'' = Some (PStr ''Mark Reyes'')"
proof -
  have 1: "\<exists>s'. seed_demo (Some s) = (Inr (), Some s')
         \<and> collections s' ''material''
             = (if collections s ''material'' = []
                then with_ids (next_oid s) [material_A, material_B]
                else collections s ''material'')
         \<and> collections s' ''tutor''
             = (if collections s ''tutor'' = []
                then with_ids (next_oid s + (if collections s ''material'' = [] then 2 else 0))
                       [tutor_A, tutor_B]
                else collections s ''tutor'')
         \<and> (\<forall>c. c \<noteq> ''material'' \<and> c \<noteq> ''tutor'' \<longrightarrow> collections s' c = collections s c)"
    if r: "reachable s"
    by (rule exI [of _ "seeded (seeded s ''material'' demo_materials) ''tutor'' demo_tutors"])
       (simp add: seed_demo_reachable [OF r] collections_seeded next_oid_seeded
          demo_materials_def demo_tutors_def)
  have 2: "fst (seed_demo db) = Inr ()" by (rule seed_demo_returns)
  have 3: "seed_demo_try (Some s) = (Inl StoreError, Some s) \<and> seed_demo (Some s) = (Inr (), Some s)"
    if "\<not> reachable s"
    using that by (simp add: seed_demo_try_unreachable seed_demo_unreachable)
  have 4: "map_of material_A ''title'' = Some (PStr ''Data Structures Reviewer'')"
    "map_of material_A ''price'' = Some (PNum 50)"
    "map_of material_A ''rating'' = Some (PNum 4.9)"
    "map_of material_A ''downloads'' = Some (PNum 120)"
    "map_of material_B ''title'' = Some (PStr ''Circuit Analysis Handout'')"
    "map_of material_B ''price'' = Some (PNum 0)"
    "map_of material_B ''rating'' = Some (PNum 4.7)"
    "map_of material_B ''downloads'' = Some (PNum 88)"
    "map_of tutor_A ''name'' = Some (PStr ''Maria Santos'')"
    "map_of tutor_B ''name'' = Some (PStr ''Mark Reyes'')"
    by (simp_all add: material_A_def material_B_def tutor_A_def tutor_B_def)
  from 1 2 3 4 seed_demo_None show ?thesis by (intro conjI impI) simp_all
qed

lemma seed_empty_store: "seed_demo (Some empty_store) = (Inr (), Some seeded_store)"
  by (simp add: seed_demo_reachable seeded_def empty_store_def seeded_store_def
      demo_materials_def demo_tutors_def numeral_2_eq_2 numeral_3_eq_3)

theorem seed_demo_seeds_empty_collections_witness:
  "reachable empty_store
   \<and> seed_demo (Some empty_store) = (Inr (), Some seeded_store)
   \<and> collections seeded_store ''material''
       = [(''_id'', PObjectId (ObjectId ''000000000000000000000000'')) # material_A,
          (''_id'', PObjectId (ObjectId ''000000000000000000000001'')) # material_B]
   \<and> collections seeded_store ''tutor''
       = [(''_id'', PObjectId (ObjectId ''000000000000000000000002'')) # tutor_A,
          (''_id'', PObjectId (ObjectId ''000000000000000000000003'')) # tutor_B]
   \<and> seed_demo (Some seeded_store) = (Inr (), Some seeded_store)
   \<and> \<not> reachable unreachable_store
   \<and> seed_demo_try (Some unreachable_store) = (Inl StoreError, Some unreachable_store)
   \<and> seed_demo (Some unreachable_store) = (Inr (), Some unreachable_store)"
proof -
  have r: "reachable empty_store" and u: "\<not> reachable unreachable_store"
    by (simp_all add: empty_store_def unreachable_store_def)
  have again: "seed_demo (Some seeded_store) = (Inr (), Some seeded_store)"
    by (simp add: seed_demo_reachable seeded_reachable seeded_def seeded_materials seeded_tutors)
  from seed_demo_seeds_empty_collections [of unreachable_store None] u
  have "seed_demo_try (Some unreachable_store) = (Inl StoreError, Some unreachable_store)
      \<and> seed_demo (Some unreachable_store) = (Inr (), Some unreachable_store)"
    by blast
  moreover from seed_demo_seeds_empty_collections [of empty_store None] r
  obtain s' where "seed_demo (Some empty_store) = (Inr (), Some s')" by blast
  ultimately show ?thesis
    using r u again seed_empty_store seeded_materials seeded_tutors by simp
qed

end
